theory Spec2Isabelle
  imports Complex_Main
begin

section \<open>Numbers\<close>

text \<open>
  Every quantity of \<^verbatim>\<open>src/App.tsx\<close> is a JavaScript \<^verbatim>\<open>number\<close>, an IEEE 754
  binary64 value: a finite double, the negative zero, one of the two infinities, or
  NaN.  A finite double is carried as the real it stands for, and \<open>Fin 0\<close> is the
  positive zero.  Every operation computes the exact real result and rounds it to the
  nearest double, ties to even, with overflow to an infinity and gradual underflow down
  to a zero.  The special cases of each operation follow ECMA-262 (Number::add,
  Number::subtract, Number::multiply, Number::divide, Number::exponentiate) and, for
  \<^verbatim>\<open>**\<close> and \<^verbatim>\<open>Math.sqrt\<close>, the correctly rounded results that engines deliver.
\<close>

datatype number = Fin real | NegZero | PInf | NInf | NaN

text \<open>
  The real a finite number stands for (both zeros stand for 0).  It is read only of
  finite numbers; on the others it is 0 by convention.
\<close>

fun value_of :: "number \<Rightarrow> real" where
  "value_of (Fin r) = r"
| "value_of NegZero = 0"
| "value_of PInf = 0"
| "value_of NInf = 0"
| "value_of NaN = 0"

fun is_finite :: "number \<Rightarrow> bool" where
  "is_finite (Fin r) = True"
| "is_finite NegZero = True"
| "is_finite PInf = False"
| "is_finite NInf = False"
| "is_finite NaN = False"

fun is_inf :: "number \<Rightarrow> bool" where
  "is_inf PInf = True"
| "is_inf NInf = True"
| "is_inf (Fin r) = False"
| "is_inf NegZero = False"
| "is_inf NaN = False"

fun is_zero :: "number \<Rightarrow> bool" where
  "is_zero (Fin r) = (r = 0)"
| "is_zero NegZero = True"
| "is_zero PInf = False"
| "is_zero NInf = False"
| "is_zero NaN = False"

fun signbit :: "number \<Rightarrow> bool" where
  "signbit (Fin r) = (r < 0)"
| "signbit NegZero = True"
| "signbit PInf = False"
| "signbit NInf = True"
| "signbit NaN = False"

definition zero_of :: "bool \<Rightarrow> number" where
  "zero_of negative = (if negative then NegZero else Fin 0)"

definition inf_of :: "bool \<Rightarrow> number" where
  "inf_of negative = (if negative then NInf else PInf)"

subsection \<open>Rounding to the nearest double\<close>

text \<open>The integer nearest to \<open>y\<close>, the even one of the two when \<open>y\<close> is half-way.\<close>

definition round_half_even :: "real \<Rightarrow> int" where
  "round_half_even y =
     (if y - of_int \<lfloor>y\<rfloor> < 1 / 2 then \<lfloor>y\<rfloor>
      else if 1 / 2 < y - of_int \<lfloor>y\<rfloor> then \<lfloor>y\<rfloor> + 1
      else if even \<lfloor>y\<rfloor> then \<lfloor>y\<rfloor> else \<lfloor>y\<rfloor> + 1)"

text \<open>
  The exponent of the binade of \<open>x\<close>, held at -1022 in the subnormal range, and the
  distance between neighbouring doubles there: 52 fraction bits below the exponent.
\<close>

definition binade :: "real \<Rightarrow> int" where
  "binade x = max \<lfloor>log 2 \<bar>x\<bar>\<rfloor> (- 1022)"

definition ulp :: "real \<Rightarrow> real" where
  "ulp x = 2 powi (binade x - 52)"

definition round_nearest :: "real \<Rightarrow> real" where
  "round_nearest x = sgn x * of_int (round_half_even (\<bar>x\<bar> / ulp x)) * ulp x"

text \<open>
  The double an exact result \<open>x\<close> is delivered as: an infinity of the sign of \<open>x\<close>
  when the rounded magnitude reaches \<open>2^1024\<close>, a zero of the sign of \<open>x\<close> when it
  rounds to nothing.
\<close>

definition round_double :: "real \<Rightarrow> number" where
  "round_double x =
     (if 2 ^ 1024 \<le> \<bar>round_nearest x\<bar> then inf_of (x < 0)
      else if round_nearest x = 0 then zero_of (x < 0)
      else Fin (round_nearest x))"

subsection \<open>The operations\<close>

text \<open>Unary minus: flips the sign, also of a zero and of an infinity.\<close>

fun js_neg :: "number \<Rightarrow> number" where
  "js_neg (Fin r) = (if r = 0 then NegZero else Fin (- r))"
| "js_neg NegZero = Fin 0"
| "js_neg PInf = NInf"
| "js_neg NInf = PInf"
| "js_neg NaN = NaN"

text \<open>
  \<^verbatim>\<open>a + b\<close>: NaN is contagious, opposite infinities give NaN, an infinity absorbs a
  finite value, and an exact sum of zero is the negative zero only when both operands
  are.
\<close>

definition js_add :: "number \<Rightarrow> number \<Rightarrow> number" where
  "js_add a b =
     (if a = NaN \<or> b = NaN then NaN
      else if is_inf a then (if is_inf b \<and> signbit a \<noteq> signbit b then NaN else a)
      else if is_inf b then b
      else if value_of a + value_of b = 0 then
        (if a = NegZero \<and> b = NegZero then NegZero else Fin 0)
      else round_double (value_of a + value_of b))"

text \<open>\<^verbatim>\<open>a - b\<close> is \<^verbatim>\<open>a + (-b)\<close>.\<close>

definition js_sub :: "number \<Rightarrow> number \<Rightarrow> number" where
  "js_sub a b = js_add a (js_neg b)"

text \<open>
  \<^verbatim>\<open>a * b\<close>: an infinity times a zero is NaN; otherwise the sign is the exclusive or
  of the operands' signs, also for a zero product.
\<close>

definition js_mul :: "number \<Rightarrow> number \<Rightarrow> number" where
  "js_mul a b =
     (if a = NaN \<or> b = NaN then NaN
      else if is_inf a \<or> is_inf b then
        (if is_zero a \<or> is_zero b then NaN else inf_of (signbit a \<noteq> signbit b))
      else if value_of a * value_of b = 0 then zero_of (signbit a \<noteq> signbit b)
      else round_double (value_of a * value_of b))"

text \<open>
  \<^verbatim>\<open>a / b\<close> never throws: zero by zero and infinity by infinity are NaN, any other
  division by a zero is an infinity, a finite value by an infinity is a zero.
\<close>

definition js_div :: "number \<Rightarrow> number \<Rightarrow> number" where
  "js_div a b =
     (if a = NaN \<or> b = NaN then NaN
      else if is_inf a then (if is_inf b then NaN else inf_of (signbit a \<noteq> signbit b))
      else if is_inf b then zero_of (signbit a \<noteq> signbit b)
      else if is_zero b then (if is_zero a then NaN else inf_of (signbit a \<noteq> signbit b))
      else if is_zero a then zero_of (signbit a \<noteq> signbit b)
      else round_double (value_of a / value_of b))"

text \<open>
  \<^verbatim>\<open>a ** 2\<close>: both zeros give the positive zero, both infinities the positive one.
  ECMA-262 leaves the precision of \<^verbatim>\<open>**\<close> to the implementation; the model takes the
  correctly rounded square, the value of \<^verbatim>\<open>a * a\<close>.
\<close>

definition js_pow2 :: "number \<Rightarrow> number" where
  "js_pow2 a =
     (case a of
        Fin r \<Rightarrow> if r = 0 then Fin 0 else round_double (r\<^sup>2)
      | NegZero \<Rightarrow> Fin 0
      | PInf \<Rightarrow> PInf
      | NInf \<Rightarrow> PInf
      | NaN \<Rightarrow> NaN)"

text \<open>\<^verbatim>\<open>Math.sqrt\<close>: NaN below zero, the zeros and the positive infinity are kept.\<close>

definition js_sqrt :: "number \<Rightarrow> number" where
  "js_sqrt a =
     (case a of
        Fin r \<Rightarrow> if r < 0 then NaN else if r = 0 then Fin 0 else round_double (sqrt r)
      | NegZero \<Rightarrow> NegZero
      | PInf \<Rightarrow> PInf
      | NInf \<Rightarrow> NaN
      | NaN \<Rightarrow> NaN)"

section \<open>Data model\<close>

text \<open>
  The anonymous \<^verbatim>\<open>{x, y}\<close> objects of the source are the record \<open>vector\<close>; the
  interface \<^verbatim>\<open>Body\<close> is the record \<open>body\<close>, its coordinates \<^verbatim>\<open>x\<close> and \<^verbatim>\<open>y\<close>
  named \<open>body_x\<close> and \<open>body_y\<close>.
\<close>

record vector =
  vec_x :: number
  vec_y :: number

record body =
  name :: string
  body_x :: number
  body_y :: number
  width :: number
  height :: number
  mass :: number
  engineForceVector :: vector
  accelerationVector :: vector
  velocityVector :: vector

record frame =
  frame_x :: number
  frame_y :: number
  frame_mass :: number
  frame_width :: number
  frame_height :: number

text \<open>
  The constants of the source.  A decimal literal is the double nearest to it; the
  integer literals are doubles as they stand.
\<close>

definition RADIUS_OF_EARTH :: number where
  "RADIUS_OF_EARTH = js_mul (Fin 6371) (Fin 1000)"

definition MASS_OF_EARTH :: number where
  "MASS_OF_EARTH = round_double (5972 * 10 ^ 21)"

definition G :: number where
  "G = round_double (6674 / 10 ^ 14)"

definition FRAME_DURATION :: number where
  "FRAME_DURATION = Fin 100"

definition FrameOfReference :: frame where
  "FrameOfReference =
     \<lparr>frame_x = Fin 0, frame_y = Fin 0, frame_mass = MASS_OF_EARTH,
      frame_width = js_mul RADIUS_OF_EARTH (Fin 2),
      frame_height = js_mul RADIUS_OF_EARTH (Fin 2)\<rparr>"

section \<open>The integrator\<close>

text \<open>
  The constants of the callback of \<^verbatim>\<open>recalculatePositions\<close>, each a function of the
  body it is computed from, in the order of the source.
\<close>

definition distanceToEarth :: "body \<Rightarrow> vector" where
  "distanceToEarth b =
     \<lparr>vec_x = js_sub (frame_x FrameOfReference) (body_x b),
      vec_y = js_sub (frame_y FrameOfReference) (body_y b)\<rparr>"

definition absoluteDistanceToEarth :: "body \<Rightarrow> number" where
  "absoluteDistanceToEarth b =
     js_sqrt (js_add (js_pow2 (vec_x (distanceToEarth b))) (js_pow2 (vec_y (distanceToEarth b))))"

definition absoluteGravitationalForce :: "body \<Rightarrow> number" where
  "absoluteGravitationalForce b =
     js_div (js_mul (js_mul G MASS_OF_EARTH) (mass b)) (js_pow2 (absoluteDistanceToEarth b))"

definition cosineTheta :: "body \<Rightarrow> number" where
  "cosineTheta b = js_div (vec_x (distanceToEarth b)) (absoluteDistanceToEarth b)"

definition sineTheta :: "body \<Rightarrow> number" where
  "sineTheta b = js_div (vec_y (distanceToEarth b)) (absoluteDistanceToEarth b)"

definition gravitationalForce :: "body \<Rightarrow> vector" where
  "gravitationalForce b =
     \<lparr>vec_x = js_mul (absoluteGravitationalForce b) (cosineTheta b),
      vec_y = js_mul (absoluteGravitationalForce b) (sineTheta b)\<rparr>"

definition newAcceleration :: "bool \<Rightarrow> body \<Rightarrow> vector" where
  "newAcceleration isEngineOn b =
     \<lparr>vec_x =
        js_div
          (if isEngineOn
           then js_add (vec_x (engineForceVector b)) (vec_x (gravitationalForce b))
           else js_add (Fin 0) (vec_x (gravitationalForce b)))
          (mass b),
      vec_y =
        js_div
          (if isEngineOn
           then js_add (vec_y (engineForceVector b)) (vec_y (gravitationalForce b))
           else js_add (Fin 0) (vec_y (gravitationalForce b)))
          (mass b)\<rparr>"

definition newVelocity :: "number \<Rightarrow> bool \<Rightarrow> body \<Rightarrow> vector" where
  "newVelocity deltaTime isEngineOn b =
     \<lparr>vec_x =
        js_add
          (js_div
            (js_mul
              (js_add (vec_x (newAcceleration isEngineOn b)) (vec_x (accelerationVector b)))
              deltaTime)
            (Fin 2))
          (vec_x (velocityVector b)),
      vec_y =
        js_add
          (js_div
            (js_mul
              (js_add (vec_y (newAcceleration isEngineOn b)) (vec_y (accelerationVector b)))
              deltaTime)
            (Fin 2))
          (vec_y (velocityVector b))\<rparr>"

definition newPosition :: "number \<Rightarrow> bool \<Rightarrow> body \<Rightarrow> vector" where
  "newPosition deltaTime isEngineOn b =
     \<lparr>vec_x =
        js_add
          (js_div
            (js_mul
              (js_add (vec_x (newVelocity deltaTime isEngineOn b)) (vec_x (velocityVector b)))
              deltaTime)
            (Fin 2))
          (body_x b),
      vec_y =
        js_add
          (js_div
            (js_mul
              (js_add (vec_y (newVelocity deltaTime isEngineOn b)) (vec_y (velocityVector b)))
              deltaTime)
            (Fin 2))
          (body_y b)\<rparr>"

text \<open>
  The callback: a copy of the body (\<^verbatim>\<open>...body\<close>) with the acceleration, the velocity
  and the two coordinates replaced.
\<close>

definition recalculateBody :: "number \<Rightarrow> bool \<Rightarrow> body \<Rightarrow> body" where
  "recalculateBody deltaTime isEngineOn b =
     b\<lparr>accelerationVector := newAcceleration isEngineOn b,
       velocityVector := newVelocity deltaTime isEngineOn b,
       body_x := vec_x (newPosition deltaTime isEngineOn b),
       body_y := vec_y (newPosition deltaTime isEngineOn b)\<rparr>"

text \<open>
  \<^verbatim>\<open>recalculatePositions\<close> is \<^verbatim>\<open>bodies.map\<close> of the callback.  The source has no
  \<^verbatim>\<open>throw\<close> and calls nothing that throws on numbers, so every call returns an
  array: the model is a total function and has no error result.
\<close>

definition recalculatePositions :: "body list \<Rightarrow> number \<Rightarrow> bool \<Rightarrow> body list" where
  "recalculatePositions bodies deltaTime isEngineOn =
     map (recalculateBody deltaTime isEngineOn) bodies"

text \<open>
  The two calls of the driver: \<^verbatim>\<open>toNextFrame\<close> steps by \<^verbatim>\<open>FRAME_DURATION / 1000\<close>,
  \<^verbatim>\<open>toPreviousFrame\<close> by \<^verbatim>\<open>-FRAME_DURATION / 1000\<close>.
\<close>

definition toNextFrame :: "bool \<Rightarrow> body list \<Rightarrow> body list" where
  "toNextFrame isEngineOn prevBodies =
     recalculatePositions prevBodies (js_div FRAME_DURATION (Fin 1000)) isEngineOn"

definition toPreviousFrame :: "bool \<Rightarrow> body list \<Rightarrow> body list" where
  "toPreviousFrame isEngineOn prevBodies =
     recalculatePositions prevBodies (js_div (js_neg FRAME_DURATION) (Fin 1000)) isEngineOn"

text \<open>The initial state of \<^verbatim>\<open>App\<close>: one rocket, 10 km above the surface.\<close>

definition rocket :: body where
  "rocket =
     \<lparr>name = ''Rocket'', body_x = Fin 0, body_y = js_add RADIUS_OF_EARTH (Fin 10000),
      width = Fin 20000, height = Fin 20000, mass = Fin 7000,
      engineForceVector = \<lparr>vec_x = Fin 0, vec_y = Fin 100000\<rparr>,
      accelerationVector = \<lparr>vec_x = Fin 0, vec_y = Fin 0\<rparr>,
      velocityVector = \<lparr>vec_x = Fin 0, vec_y = Fin 0\<rparr>\<rparr>"

section \<open>Finite states and their real values\<close>

text \<open>
  A body whose position, mass and vectors are finite numbers; the cosmetic width and
  height play no part in a step.
\<close>

definition finite_vector :: "vector \<Rightarrow> bool" where
  "finite_vector v = (is_finite (vec_x v) \<and> is_finite (vec_y v))"

definition finite_body :: "body \<Rightarrow> bool" where
  "finite_body b =
     (is_finite (body_x b) \<and> is_finite (body_y b) \<and> is_finite (mass b) \<and>
      finite_vector (engineForceVector b) \<and> finite_vector (accelerationVector b) \<and>
      finite_vector (velocityVector b))"

type_synonym vector2 = "real \<times> real"

definition reals_of :: "vector \<Rightarrow> vector2" where
  "reals_of v = (value_of (vec_x v), value_of (vec_y v))"

definition position :: "body \<Rightarrow> vector2" where
  "position b = (value_of (body_x b), value_of (body_y b))"

text \<open>A vector neither of whose components is a finite number.\<close>

definition no_finite_component :: "vector \<Rightarrow> bool" where
  "no_finite_component v = (\<not> is_finite (vec_x v) \<and> \<not> is_finite (vec_y v))"

text \<open>A number above zero: the positive infinity or a finite positive value.\<close>

definition positive :: "number \<Rightarrow> bool" where
  "positive n = (n = PInf \<or> (is_finite n \<and> 0 < value_of n))"

text \<open>
  The distance of the specification, over the reals: the displacement \<open>d\<close> from the
  body to the frame at the origin and its Euclidean length \<open>r\<close>.
\<close>

definition spec_d :: "vector2 \<Rightarrow> vector2" where
  "spec_d p = (0 - fst p, 0 - snd p)"

definition spec_r :: "vector2 \<Rightarrow> real" where
  "spec_r p = sqrt ((fst (spec_d p))\<^sup>2 + (snd (spec_d p))\<^sup>2)"

section \<open>The inputs of the examples\<close>

text \<open>
  The step of \<^verbatim>\<open>toNextFrame\<close>, \<^verbatim>\<open>FRAME_DURATION / 1000\<close>: the double nearest to 0.1.
\<close>

definition frameSeconds :: number where
  "frameSeconds = js_div FRAME_DURATION (Fin 1000)"

text \<open>
  Inputs outside the specification's preconditions: the rocket at the centre of the
  frame, the rocket without mass, and the rocket with a negative mass.
\<close>

definition rocket_at_origin :: body where
  "rocket_at_origin = rocket\<lparr>body_y := Fin 0\<rparr>"

definition massless_rocket :: body where
  "massless_rocket = rocket\<lparr>mass := Fin 0\<rparr>"

definition negative_mass_rocket :: body where
  "negative_mass_rocket = rocket\<lparr>mass := Fin (- 7000)\<rparr>"

text \<open>
  Inputs inside the preconditions at which doubles leave the reals: a rocket of mass
  \<open>2^1000\<close> kg (about 1.07e301), a rocket \<open>2^-600\<close> m (about 2.4e-181) beside the
  centre of the frame, and the rocket with 27 times its mass.
\<close>

definition heavy_rocket :: body where
  "heavy_rocket = rocket\<lparr>mass := Fin (2 ^ 1000)\<rparr>"

definition rocket_beside_origin :: body where
  "rocket_beside_origin = rocket\<lparr>body_x := Fin (1 / 2 ^ 600), body_y := Fin 0\<rparr>"

definition rocket_times_27 :: body where
  "rocket_times_27 = rocket\<lparr>mass := Fin 189000\<rparr>"

text \<open>
  The scenario of the specification's section 8: the rocket stepped once by 0.1 s with
  the engine on, and the comparison of a computed value with an expected one within a
  relative tolerance.
\<close>

definition rocket_stepped :: body where
  "rocket_stepped = recalculatePositions [rocket] frameSeconds True ! 0"

definition within_relative_tolerance :: "real \<Rightarrow> real \<Rightarrow> real \<Rightarrow> bool" where
  "within_relative_tolerance tol expected actual = (\<bar>actual - expected\<bar> \<le> tol * \<bar>expected\<bar>)"

section \<open>The step as the specification words it\<close>

text \<open>
  The algorithm of the specification, section 4.2, read in the arithmetic of the
  program, every operation rounded: displacement \<open>d\<close> from the body to the frame at
  the origin, distance \<open>r = |d|\<close>, gravitational force of magnitude
  \<open>G * M_frame * mass / r^2\<close> along \<open>d / r\<close>, net force with the engine force when
  the engine is on and with zero otherwise, acceleration \<open>netForce / mass\<close>, velocity
  \<open>v + (a' + a) * dt / 2\<close> and position \<open>p + (v' + v) * dt / 2\<close>.
\<close>

definition formula_d :: "body \<Rightarrow> vector" where
  "formula_d b = \<lparr>vec_x = js_sub (Fin 0) (body_x b), vec_y = js_sub (Fin 0) (body_y b)\<rparr>"

definition formula_r :: "body \<Rightarrow> number" where
  "formula_r b = js_sqrt (js_add (js_pow2 (vec_x (formula_d b))) (js_pow2 (vec_y (formula_d b))))"

definition formula_F_g :: "body \<Rightarrow> number" where
  "formula_F_g b = js_div (js_mul (js_mul G MASS_OF_EARTH) (mass b)) (js_pow2 (formula_r b))"

definition formula_gravity :: "body \<Rightarrow> vector" where
  "formula_gravity b =
     \<lparr>vec_x = js_mul (formula_F_g b) (js_div (vec_x (formula_d b)) (formula_r b)),
      vec_y = js_mul (formula_F_g b) (js_div (vec_y (formula_d b)) (formula_r b))\<rparr>"

definition formula_netForce :: "bool \<Rightarrow> body \<Rightarrow> vector" where
  "formula_netForce engineOn b =
     \<lparr>vec_x = js_add (vec_x (formula_gravity b))
                (if engineOn then vec_x (engineForceVector b) else Fin 0),
      vec_y = js_add (vec_y (formula_gravity b))
                (if engineOn then vec_y (engineForceVector b) else Fin 0)\<rparr>"

definition formula_acceleration :: "bool \<Rightarrow> body \<Rightarrow> vector" where
  "formula_acceleration engineOn b =
     \<lparr>vec_x = js_div (vec_x (formula_netForce engineOn b)) (mass b),
      vec_y = js_div (vec_y (formula_netForce engineOn b)) (mass b)\<rparr>"

definition trapezoid :: "number \<Rightarrow> number \<Rightarrow> number \<Rightarrow> number \<Rightarrow> number" where
  "trapezoid old new previous dt = js_add old (js_div (js_mul (js_add new previous) dt) (Fin 2))"

definition formula_velocity :: "number \<Rightarrow> bool \<Rightarrow> body \<Rightarrow> vector" where
  "formula_velocity dt engineOn b =
     \<lparr>vec_x = trapezoid (vec_x (velocityVector b)) (vec_x (formula_acceleration engineOn b))
                (vec_x (accelerationVector b)) dt,
      vec_y = trapezoid (vec_y (velocityVector b)) (vec_y (formula_acceleration engineOn b))
                (vec_y (accelerationVector b)) dt\<rparr>"

definition formula_position :: "number \<Rightarrow> bool \<Rightarrow> body \<Rightarrow> vector" where
  "formula_position dt engineOn b =
     \<lparr>vec_x = trapezoid (body_x b) (vec_x (formula_velocity dt engineOn b))
                (vec_x (velocityVector b)) dt,
      vec_y = trapezoid (body_y b) (vec_y (formula_velocity dt engineOn b))
                (vec_y (velocityVector b)) dt\<rparr>"


section \<open>Divisors\<close>

text \<open>
  A divisor that is a number other than zero: dividing by it is neither a division by
  zero nor a division by NaN.
\<close>

definition nonzero_divisor :: "number \<Rightarrow> bool" where
  "nonzero_divisor d = (d \<noteq> NaN \<and> \<not> is_zero d)"

text \<open>A number no less than the real \<open>k\<close>: the positive infinity or a finite value from \<open>k\<close> up.\<close>

definition at_least :: "real \<Rightarrow> number \<Rightarrow> bool" where
  "at_least k n = (n = PInf \<or> (is_finite n \<and> k \<le> value_of n))"

text \<open>
  A coordinate far enough from zero for its square not to underflow: finite and of
  magnitude \<open>2^-537\<close> (about 2.2e-162) or more.
\<close>

definition square_survives :: "number \<Rightarrow> bool" where
  "square_survives c = (is_finite c \<and> 2 powi (- 537) \<le> \<bar>value_of c\<bar>)"

section \<open>Scaling by a power of two\<close>

text \<open>
  A real in the range of the normal doubles, and a real that stays there when it is
  multiplied by \<open>2^j\<close>, unless it is zero: rounding such a value commutes with the
  multiplication.
\<close>

definition in_normal_range :: "real \<Rightarrow> bool" where
  "in_normal_range x = (2 powi (- 1022) \<le> \<bar>x\<bar> \<and> \<bar>x\<bar> < 2 powi 1023)"

definition scalable :: "int \<Rightarrow> real \<Rightarrow> bool" where
  "scalable j x = (x = 0 \<or> (in_normal_range x \<and> in_normal_range (2 powi j * x)))"

text \<open>
  The number \<open>n'\<close> is the number \<open>n\<close> times \<open>2^j\<close>: the same zero, or the finite
  value scaled.
\<close>

definition scaled_by :: "int \<Rightarrow> number \<Rightarrow> number \<Rightarrow> bool" where
  "scaled_by j n n' =
     (if is_zero n then n' = n else is_finite n \<and> n' = Fin (2 powi j * value_of n))"

text \<open>
  A body whose gravitational force can be scaled by \<open>2^j\<close> together with its mass: the
  mass is finite, not zero and in the normal range before and after the scaling,
  \<^verbatim>\<open>absoluteDistanceToEarth ** 2\<close> is finite and not zero, the cosine and the sine are
  finite, and the exact value of each operation on the way from the mass to the net
  force (\<^verbatim>\<open>G * MASS_OF_EARTH * body.mass\<close>, the division by the squared distance,
  the two products with the cosine and the sine, the two sums with 0) is zero or stays
  in the normal range, before and after the scaling.
\<close>

definition mass_scalable :: "int \<Rightarrow> body \<Rightarrow> bool" where
  "mass_scalable j b =
     (is_finite (mass b) \<and> value_of (mass b) \<noteq> 0 \<and> scalable j (value_of (mass b)) \<and>
      is_finite (js_pow2 (absoluteDistanceToEarth b)) \<and>
      value_of (js_pow2 (absoluteDistanceToEarth b)) \<noteq> 0 \<and>
      is_finite (cosineTheta b) \<and> is_finite (sineTheta b) \<and>
      scalable j (value_of (js_mul G MASS_OF_EARTH) * value_of (mass b)) \<and>
      scalable j (value_of (js_mul (js_mul G MASS_OF_EARTH) (mass b)) /
                  value_of (js_pow2 (absoluteDistanceToEarth b))) \<and>
      scalable j (value_of (absoluteGravitationalForce b) * value_of (cosineTheta b)) \<and>
      scalable j (value_of (absoluteGravitationalForce b) * value_of (sineTheta b)) \<and>
      scalable j (value_of (vec_x (gravitationalForce b))) \<and>
      scalable j (value_of (vec_y (gravitationalForce b))))"
section \<open>Rounding: how a result is evaluated\<close>

lemma floor_log2:
  assumes "2 powi e \<le> a" and "a < 2 powi (e + 1)"
  shows "\<lfloor>log 2 a\<rfloor> = e"
proof -
  have pos: "0 < a"
    using assms(1) zero_less_power_int [of "2::real" e] by linarith
  have "2 powr of_int e \<le> a" and "a < 2 powr of_int (e + 1)"
    using assms by (simp_all only: powr_real_of_int' [of 2, simplified])
  then have "of_int e \<le> log 2 a" and "log 2 a < of_int e + 1"
    using pos by (simp_all add: le_log_iff log_less_iff)
  then show ?thesis
    by (rule floor_unique)
qed

lemma round_half_even_unique:
  assumes "\<bar>y - of_int n\<bar> < 1 / 2 \<or> (\<bar>y - of_int n\<bar> = 1 / 2 \<and> even n)"
  shows "round_half_even y = n"
proof -
  have le: "\<bar>y - of_int n\<bar> \<le> 1 / 2"
    using assms by auto
  then have "\<lfloor>y\<rfloor> = n \<or> \<lfloor>y\<rfloor> = n - 1"
    by (auto simp: floor_eq_iff abs_le_iff)
  then show ?thesis
  proof
    assume f: "\<lfloor>y\<rfloor> = n"
    then have "0 \<le> y - of_int n"
      by (metis diff_ge_0_iff_ge of_int_floor_le)
    then show ?thesis
      using assms f by (auto simp: round_half_even_def)
  next
    assume f: "\<lfloor>y\<rfloor> = n - 1"
    then have "y < of_int n"
      by (metis floor_less_iff diff_less zero_less_one less_le_not_le linorder_not_less
          of_int_floor_le floor_correct add.commute diff_add_cancel of_int_1 of_int_add)
    then have "y - of_int (n - 1) = 1 - \<bar>y - of_int n\<bar>"
      by simp
    then show ?thesis
      using assms f by (auto simp: round_half_even_def)
  qed
qed

lemma round_half_even_ge_floor: "\<lfloor>y\<rfloor> \<le> round_half_even y"
  by (simp add: round_half_even_def)

lemma round_half_even_ge: "of_int N \<le> y \<Longrightarrow> N \<le> round_half_even y"
proof -
  assume "of_int N \<le> y"
  then have "N \<le> \<lfloor>y\<rfloor>"
    by (simp add: le_floor_iff)
  then show ?thesis
    using round_half_even_ge_floor [of y] by linarith
qed

lemma ulp_pos: "0 < ulp x"
  by (simp add: ulp_def zero_less_power_int)


lemma binade_normal:
  assumes "2 powi e \<le> \<bar>x\<bar>" and "\<bar>x\<bar> < 2 powi (e + 1)" and "- 1022 \<le> e"
  shows "binade x = e"
  using floor_log2 [OF assms(1,2)] assms(3) by (simp add: binade_def)

lemma power_int_half: "(2::real) powi (e - 53) = 2 powi (e - 52) / 2"
  by (simp add: power_int_diff)

lemma power_int_52: "(2::real) powi e = 2 ^ 52 * 2 powi (e - 52)"
  by (simp add: power_int_diff)

lemma round_nearest_eval:
  assumes "2 powi e \<le> \<bar>x\<bar>" and "\<bar>x\<bar> < 2 powi (e + 1)" and "- 1022 \<le> e"
    and "d = of_int n * 2 powi (e - 52)"
    and "\<bar>x - d\<bar> < 2 powi (e - 53) \<or> (\<bar>x - d\<bar> = 2 powi (e - 53) \<and> even n)"
  shows "round_nearest x = d"
proof -
  let ?q = "(2::real) powi (e - 52)"
  have q: "0 < ?q"
    by (simp add: zero_less_power_int)
  have u: "ulp x = ?q"
    by (simp add: ulp_def binade_normal [OF assms(1,2,3)])
  have "0 < \<bar>x\<bar>"
    using assms(1) zero_less_power_int [of "2::real" e] by linarith
  then have x: "x \<noteq> 0"
    by simp
  have dist: "\<bar>x / ?q - of_int n\<bar> = \<bar>x - d\<bar> / ?q"
    using q by (simp add: assms(4) field_simps abs_mult abs_divide)
  have half: "(2::real) powi (e - 53) / ?q = 1 / 2"
    using q by (simp add: power_int_half)
  have close: "\<bar>x / ?q - of_int n\<bar> < 1 / 2 \<or> (\<bar>x / ?q - of_int n\<bar> = 1 / 2 \<and> even n)"
    using assms(5)
  proof
    assume "\<bar>x - d\<bar> < 2 powi (e - 53)"
    then have "\<bar>x - d\<bar> / ?q < 2 powi (e - 53) / ?q"
      using q by (simp add: divide_strict_right_mono)
    then show ?thesis
      by (simp add: dist half)
  next
    assume "\<bar>x - d\<bar> = 2 powi (e - 53) \<and> even n"
    then show ?thesis
      by (simp add: dist half)
  qed
  show ?thesis
  proof (cases "0 < x")
    case True
    then have "round_half_even (\<bar>x\<bar> / ?q) = n"
      using close by (simp add: round_half_even_unique)
    then show ?thesis
      using True by (simp add: round_nearest_def u assms(4))
  next
    case False
    then have neg: "x < 0"
      using x by simp
    have "\<bar>\<bar>x\<bar> / ?q - of_int (- n)\<bar> = \<bar>x / ?q - of_int n\<bar>"
      using neg by (simp add: abs_minus_commute [symmetric] field_simps)
    then have "round_half_even (\<bar>x\<bar> / ?q) = - n"
      using close by (intro round_half_even_unique) simp
    then show ?thesis
      using neg by (simp add: round_nearest_def u assms(4))
  qed
qed

lemma round_double_eval:
  assumes "2 powi e \<le> \<bar>x\<bar>" and "\<bar>x\<bar> < 2 powi (e + 1)" and "- 1022 \<le> e" and "e \<le> 1022"
    and "d = of_int n * 2 powi (e - 52)"
    and "\<bar>x - d\<bar> < 2 powi (e - 53) \<or> (\<bar>x - d\<bar> = 2 powi (e - 53) \<and> even n)"
  shows "round_double x = Fin d"
proof -
  have r: "round_nearest x = d"
    using assms(1,2,3,5,6) by (rule round_nearest_eval)
  have near: "\<bar>x - d\<bar> \<le> 2 powi (e - 53)"
    using assms(6) by auto
  have half: "(2::real) powi (e - 53) < 2 powi e"
    by (rule power_int_strict_increasing) simp_all
  have "\<bar>x\<bar> - \<bar>x - d\<bar> \<le> \<bar>d\<bar>"
    by linarith
  then have lower: "0 < \<bar>d\<bar>"
    using assms(1) near half by linarith
  have "(2::real) powi (e + 1) \<le> 2 powi 1023" and "(2::real) powi (e - 53) \<le> 2 powi 1023"
    by (rule power_int_increasing; use assms(4) in simp)+
  moreover have "\<bar>d\<bar> \<le> \<bar>x\<bar> + \<bar>x - d\<bar>"
    by linarith
  ultimately have "\<bar>d\<bar> < 2 powi 1023 + 2 powi 1023"
    using assms(2) near by linarith
  also have "\<dots> = (2::real) ^ 1024"
    by (simp add: power_int_def)
  finally have upper: "\<bar>d\<bar> < 2 ^ 1024" .
  show ?thesis
    using lower upper by (simp add: round_double_def r)
qed

lemma round_double_overflow:
  assumes "2 ^ 1024 \<le> \<bar>x\<bar>"
  shows "round_double x = inf_of (x < 0)"
proof -
  have pos: "0 < \<bar>x\<bar>"
    using assms by (smt (verit) zero_less_power)
  have "(2::real) powr 1024 \<le> \<bar>x\<bar>"
    using assms powr_realpow [of "2::real" 1024] by simp
  then have "1024 \<le> log 2 \<bar>x\<bar>"
    using pos by (simp add: le_log_iff)
  then have e: "1024 \<le> \<lfloor>log 2 \<bar>x\<bar>\<rfloor>"
    by (simp add: le_floor_iff)
  let ?e = "\<lfloor>log 2 \<bar>x\<bar>\<rfloor>"
  have b: "binade x = ?e"
    using e by (simp add: binade_def)
  have "2 powr of_int ?e \<le> \<bar>x\<bar>"
    using pos by (simp add: powr_le_iff)
  then have le: "2 powi ?e \<le> \<bar>x\<bar>"
    by (simp only: powr_real_of_int' [of 2, simplified])
  let ?q = "(2::real) powi (?e - 52)"
  have q: "0 < ?q"
    by (simp add: zero_less_power_int)
  have "of_int (2 ^ 52) \<le> \<bar>x\<bar> / ?q"
    using le q power_int_52 [of ?e] by (simp add: field_simps)
  then have "2 ^ 52 \<le> round_half_even (\<bar>x\<bar> / ?q)"
    by (rule round_half_even_ge)
  then have "(2::real) ^ 52 \<le> of_int (round_half_even (\<bar>x\<bar> / ?q))"
    by (metis of_int_le_iff of_int_numeral of_int_power)
  then have "2 ^ 52 * ?q \<le> of_int (round_half_even (\<bar>x\<bar> / ?q)) * ?q"
    using q by (simp add: mult_right_mono)
  then have "2 powi ?e \<le> of_int (round_half_even (\<bar>x\<bar> / ?q)) * ?q"
    using power_int_52 [of ?e] by simp
  moreover have "(2::real) powi 1024 \<le> 2 powi ?e"
    by (rule power_int_increasing; use e in simp)
  moreover have "\<bar>round_nearest x\<bar> = of_int (round_half_even (\<bar>x\<bar> / ?q)) * ?q"
  proof -
    have "0 \<le> round_half_even (\<bar>x\<bar> / ?q)"
      using \<open>2 ^ 52 \<le> round_half_even (\<bar>x\<bar> / ?q)\<close>
      by (meson order_trans zero_le_numeral zero_le_power)
    then show ?thesis
      using pos q by (simp add: round_nearest_def ulp_def b abs_mult abs_sgn_eq)
  qed
  ultimately have "2 ^ 1024 \<le> \<bar>round_nearest x\<bar>"
    by (simp add: power_int_def)
  then show ?thesis
    by (simp add: round_double_def)
qed

lemma round_double_underflow:
  assumes "\<bar>x\<bar> < 2 powi (- 1075)"
  shows "round_double x = zero_of (x < 0)"
proof -
  have "round_nearest x = 0"
  proof (cases "x = 0")
    case True
    then show ?thesis
      by (simp add: round_nearest_def)
  next
    case False
    then have pos: "0 < \<bar>x\<bar>"
      by simp
    have "\<bar>x\<bar> < 2 powr of_int (- 1075)"
      using assms by (simp only: powr_real_of_int' [of 2, simplified])
    then have "log 2 \<bar>x\<bar> < - 1075"
      using pos by (simp add: log_less_iff)
    then have "\<lfloor>log 2 \<bar>x\<bar>\<rfloor> < - 1022"
      by (simp add: floor_less_iff)
    then have u: "ulp x = 2 powi (- 1074)"
      by (simp add: ulp_def binade_def)
    have "\<bar>x\<bar> / 2 powi (- 1074) < 1 / 2"
      using assms by (simp add: power_int_def field_simps)
    moreover have "0 \<le> \<bar>x\<bar> / (2::real) powi (- 1074)"
      by simp
    ultimately have "round_half_even (\<bar>x\<bar> / 2 powi (- 1074)) = 0"
      by (intro round_half_even_unique) simp
    then show ?thesis
      by (simp add: round_nearest_def u)
  qed
  then show ?thesis
    by (simp add: round_double_def)
qed

section \<open>Rounding: bounds, the lattice of doubles, scaling by powers of two\<close>

lemma nonzero_of_binade:
  assumes "2 powi e \<le> \<bar>x\<bar>"
  shows "(x::real) \<noteq> 0"
proof -
  have "0 < (2::real) powi e"
    by (simp add: zero_less_power_int)
  then have "0 < \<bar>x\<bar>"
    using assms by linarith
  then show ?thesis
    by simp
qed

lemma round_nearest_nonneg:
  assumes "0 \<le> x"
  shows "0 \<le> round_nearest x"
proof -
  have u: "0 < ulp x"
    by (simp add: ulp_def zero_less_power_int)
  then have "of_int 0 \<le> \<bar>x\<bar> / ulp x"
    by simp
  then have "0 \<le> round_half_even (\<bar>x\<bar> / ulp x)"
    by (rule round_half_even_ge)
  then have "0 \<le> of_int (round_half_even (\<bar>x\<bar> / ulp x)) * ulp x"
    using u by simp
  moreover have "0 \<le> sgn x"
    using assms by (simp add: sgn_real_def)
  ultimately show ?thesis
    unfolding round_nearest_def by (metis mult.assoc mult_nonneg_nonneg)
qed

lemma round_half_even_le: "y \<le> of_int N \<Longrightarrow> round_half_even y \<le> N"
proof -
  assume le: "y \<le> of_int N"
  show ?thesis
  proof (cases "y = of_int N")
    case True
    then show ?thesis
      by (simp add: round_half_even_def)
  next
    case False
    then have "y < of_int N"
      using le by simp
    then have "\<lfloor>y\<rfloor> < N"
      by (simp add: floor_less_iff)
    then have "\<lfloor>y\<rfloor> + 1 \<le> N"
      by simp
    moreover have "round_half_even y \<le> \<lfloor>y\<rfloor> + 1"
      by (simp add: round_half_even_def)
    ultimately show ?thesis
      by linarith
  qed
qed

lemma binade_ge: "- 1022 \<le> binade x"
  by (simp add: binade_def)

lemma ulp_ge: "2 powi (- 1074) \<le> ulp x"
  unfolding ulp_def by (rule power_int_increasing) (use binade_ge [of x] in simp_all)

lemma round_nearest_minus: "round_nearest (- x) = - round_nearest x"
  by (simp add: round_nearest_def ulp_def binade_def sgn_minus)

lemma round_nearest_pos:
  assumes "0 < x"
  shows "round_nearest x = of_int (round_half_even (x / ulp x)) * ulp x"
  using assms by (simp add: round_nearest_def)

text \<open>
  The binade of a positive \<open>x\<close> is its true exponent unless that lies below -1022.
\<close>

lemma binade_true:
  assumes "0 < x" and "- 1022 < binade x"
  shows "2 powi binade x \<le> x"
proof -
  have b: "binade x = \<lfloor>log 2 \<bar>x\<bar>\<rfloor>"
    using assms(2) by (simp add: binade_def max_def split: if_splits)
  have "2 powr of_int \<lfloor>log 2 x\<rfloor> \<le> x"
    using assms(1) by (simp add: powr_le_iff)
  then have "2 powi \<lfloor>log 2 x\<rfloor> \<le> x"
    by (simp only: powr_real_of_int' [of 2, simplified])
  then show ?thesis
    using assms(1) b by simp
qed

lemma binade_le:
  assumes "0 < x" and "x \<le> 2 powi k"
  shows "binade x \<le> max k (- 1022)"
proof -
  have "x \<le> 2 powr of_int k"
    using assms(2) by (simp only: powr_real_of_int' [of 2, simplified])
  then have "log 2 x \<le> of_int k"
    using assms(1) by (simp add: log_le_iff)
  then have "\<lfloor>log 2 x\<rfloor> \<le> k"
    by (simp add: floor_le_iff)
  then show ?thesis
    using assms(1) by (simp add: binade_def)
qed

text \<open>Rounding does not cross a power of two, from either side.\<close>

lemma round_nearest_ge_pow2:
  assumes "- 1074 \<le> k" and "2 powi k \<le> x"
  shows "2 powi k \<le> round_nearest x"
proof -
  have pk: "0 < (2::real) powi k"
    by (simp add: zero_less_power_int)
  then have x: "0 < x"
    using assms(2) by linarith
  let ?e = "binade x"
  have u: "0 < ulp x"
    by (simp add: ulp_def zero_less_power_int)
  show ?thesis
  proof (cases "?e - 52 \<le> k")
    case True
    define N :: int where "N = 2 ^ nat (k - (?e - 52))"
    have N: "of_int N * ulp x = 2 powi k"
    proof -
      have "(of_int N :: real) = 2 powi (k - (?e - 52))"
        using True by (simp add: N_def power_int_def)
      then have "of_int N * ulp x = 2 powi (k - (?e - 52)) * 2 powi (?e - 52)"
        by (simp add: ulp_def)
      also have "\<dots> = 2 powi k"
        by (simp add: power_int_add [symmetric])
      finally show ?thesis .
    qed
    then have "of_int N \<le> x / ulp x"
      using assms(2) u by (simp add: field_simps)
    then have "N \<le> round_half_even (x / ulp x)"
      by (rule round_half_even_ge)
    then have "of_int N * ulp x \<le> of_int (round_half_even (x / ulp x)) * ulp x"
      using u by (simp add: mult_right_mono)
    then show ?thesis
      using x N by (simp add: round_nearest_pos)
  next
    case False
    then have big: "k < ?e - 52"
      by simp
    then have "- 1022 < ?e"
      using assms(1) by linarith
    then have "2 powi ?e \<le> x"
      using x by (rule binade_true [rotated])
    moreover have "ulp x \<le> 2 powi ?e"
      unfolding ulp_def by (rule power_int_increasing) simp_all
    ultimately have "of_int 1 \<le> x / ulp x"
      using u by (simp add: field_simps)
    then have "1 \<le> round_half_even (x / ulp x)"
      by (rule round_half_even_ge)
    then have "1 * ulp x \<le> of_int (round_half_even (x / ulp x)) * ulp x"
      using u by (intro mult_right_mono) simp_all
    moreover have "2 powi k \<le> ulp x"
      unfolding ulp_def by (rule power_int_increasing) (use big in simp_all)
    ultimately show ?thesis
      using x by (simp add: round_nearest_pos)
  qed
qed

lemma round_nearest_le_pow2:
  assumes "- 1074 \<le> k" and "0 < x" and "x \<le> 2 powi k"
  shows "round_nearest x \<le> 2 powi k"
proof -
  let ?e = "binade x"
  have u: "0 < ulp x"
    by (simp add: ulp_def zero_less_power_int)
  have "?e \<le> max k (- 1022)"
    using assms(2,3) by (rule binade_le)
  then have le: "?e - 52 \<le> k"
    using assms(1) by (simp add: max_def split: if_splits)
  define N :: int where "N = 2 ^ nat (k - (?e - 52))"
  have N: "of_int N * ulp x = 2 powi k"
  proof -
    have "(of_int N :: real) = 2 powi (k - (?e - 52))"
      using le by (simp add: N_def power_int_def)
    then have "of_int N * ulp x = 2 powi (k - (?e - 52)) * 2 powi (?e - 52)"
      by (simp add: ulp_def)
    also have "\<dots> = 2 powi k"
      by (simp add: power_int_add [symmetric])
    finally show ?thesis .
  qed
  then have "x / ulp x \<le> of_int N"
    using assms(3) u by (simp add: field_simps)
  then have "round_half_even (x / ulp x) \<le> N"
    by (rule round_half_even_le)
  then have "of_int (round_half_even (x / ulp x)) * ulp x \<le> of_int N * ulp x"
    using u by (simp add: mult_right_mono)
  then show ?thesis
    using assms(2) N by (simp add: round_nearest_pos)
qed

text \<open>Every double other than zero is at least \<open>2^-1074\<close> in magnitude.\<close>

lemma round_nearest_lattice: "round_nearest x = 0 \<or> 2 powi (- 1074) \<le> \<bar>round_nearest x\<bar>"
proof (cases "round_nearest x = 0")
  case True
  then show ?thesis
    by simp
next
  case False
  let ?n = "round_half_even (\<bar>x\<bar> / ulp x)"
  have u: "0 < ulp x"
    by (simp add: ulp_def zero_less_power_int)
  have "x \<noteq> 0" and "?n \<noteq> 0"
    using False by (auto simp: round_nearest_def)
  then have "\<bar>round_nearest x\<bar> = \<bar>of_int ?n\<bar> * ulp x" and "1 \<le> \<bar>of_int ?n :: real\<bar>"
    using u by (simp_all add: round_nearest_def abs_mult abs_sgn_eq)
  then have "1 * ulp x \<le> \<bar>round_nearest x\<bar>"
    using u by (simp add: mult_right_mono)
  then show ?thesis
    using ulp_ge [of x] by linarith
qed

text \<open>
  In the normal range a result rounds to a finite double other than zero, and
  multiplying by a power of two commutes with the rounding.
\<close>

lemma round_nearest_normal:
  assumes "2 powi (- 1022) \<le> \<bar>x\<bar>" and "\<bar>x\<bar> < 2 powi 1023"
  shows "2 powi (- 1022) \<le> \<bar>round_nearest x\<bar>" and "\<bar>round_nearest x\<bar> \<le> 2 powi 1023"
proof -
  have pos: "0 < \<bar>x\<bar>"
    using assms(1) zero_less_power_int [of "2::real" "- 1022"] by linarith
  have abs: "\<bar>round_nearest x\<bar> = round_nearest \<bar>x\<bar>"
  proof (cases "0 \<le> x")
    case True
    then show ?thesis
      using round_nearest_nonneg [of x] by simp
  next
    case False
    then show ?thesis
      using round_nearest_nonneg [of "- x"] by (simp add: round_nearest_minus)
  qed
  show "2 powi (- 1022) \<le> \<bar>round_nearest x\<bar>"
    unfolding abs by (rule round_nearest_ge_pow2) (use assms(1) in simp_all)
  show "\<bar>round_nearest x\<bar> \<le> 2 powi 1023"
    unfolding abs by (rule round_nearest_le_pow2) (use assms(2) pos in simp_all)
qed

lemma round_double_normal:
  assumes "2 powi (- 1022) \<le> \<bar>x\<bar>" and "\<bar>x\<bar> < 2 powi 1023"
  shows "round_double x = Fin (round_nearest x)" and "round_nearest x \<noteq> 0"
proof -
  note b = round_nearest_normal [OF assms]
  have "0 < (2::real) powi (- 1022)"
    by (simp add: zero_less_power_int)
  then show nz: "round_nearest x \<noteq> 0"
    using b(1) by auto
  have "(2::real) powi 1023 < 2 ^ 1024"
    by (simp add: power_int_def)
  then have "\<bar>round_nearest x\<bar> < 2 ^ 1024"
    using b(2) by linarith
  then show "round_double x = Fin (round_nearest x)"
    using nz by (simp add: round_double_def)
qed

lemma binade_of_normal:
  assumes "2 powi (- 1022) \<le> \<bar>x\<bar>"
  shows "binade x = \<lfloor>log 2 \<bar>x\<bar>\<rfloor>"
proof -
  have pos: "0 < \<bar>x\<bar>"
    using assms zero_less_power_int [of "2::real" "- 1022"] by linarith
  have "2 powr of_int (- 1022) \<le> \<bar>x\<bar>"
    using assms by (simp only: powr_real_of_int' [of 2, simplified])
  then have "of_int (- 1022) \<le> log 2 \<bar>x\<bar>"
    using pos by (simp add: le_log_iff)
  then have "- 1022 \<le> \<lfloor>log 2 \<bar>x\<bar>\<rfloor>"
    by (simp add: le_floor_iff)
  then show ?thesis
    by (simp add: binade_def)
qed

lemma floor_log2_scale:
  assumes "x \<noteq> 0"
  shows "\<lfloor>log 2 \<bar>2 powi j * x\<bar>\<rfloor> = j + \<lfloor>log 2 \<bar>x\<bar>\<rfloor>"
proof -
  have p: "0 < (2::real) powi j"
    by (simp add: zero_less_power_int)
  have "log 2 (2 powi j) = of_int j"
    using log_powr_cancel [of 2 "of_int j"] by (simp add: powr_real_of_int' [of 2, simplified])
  then have "log 2 \<bar>2 powi j * x\<bar> = of_int j + log 2 \<bar>x\<bar>"
    using assms p by (simp add: abs_mult log_mult)
  then show ?thesis
    by (simp add: add.commute)
qed

lemma round_nearest_scale:
  assumes "2 powi (- 1022) \<le> \<bar>x\<bar>" and "2 powi (- 1022) \<le> \<bar>2 powi j * x\<bar>"
  shows "round_nearest (2 powi j * x) = 2 powi j * round_nearest x"
proof -
  have p: "0 < (2::real) powi j"
    by (simp add: zero_less_power_int)
  have x: "x \<noteq> 0"
    using assms(1) by (rule nonzero_of_binade)
  have "binade (2 powi j * x) = j + binade x"
    by (simp add: binade_of_normal [OF assms(1)] binade_of_normal [OF assms(2)]
        floor_log2_scale [OF x])
  then have u: "ulp (2 powi j * x) = 2 powi j * ulp x"
    by (simp add: ulp_def power_int_add [symmetric] add_diff_eq)
  have "\<bar>2 powi j * x\<bar> / ulp (2 powi j * x) = \<bar>x\<bar> / ulp x"
    using p by (simp add: u abs_mult)
  moreover have "sgn (2 powi j * x) = sgn x"
    using p by (simp add: sgn_mult)
  ultimately show ?thesis
    by (simp add: round_nearest_def u)
qed

section \<open>The operations on finite doubles\<close>

lemma js_add_Fin: "a + b \<noteq> 0 \<Longrightarrow> js_add (Fin a) (Fin b) = round_double (a + b)"
  by (simp add: js_add_def)

lemma js_sub_Fin: "a - b \<noteq> 0 \<Longrightarrow> js_sub (Fin a) (Fin b) = round_double (a - b)"
  by (simp add: js_sub_def js_add_def)

lemma js_mul_Fin: "a * b \<noteq> 0 \<Longrightarrow> js_mul (Fin a) (Fin b) = round_double (a * b)"
  by (simp add: js_mul_def)

lemma js_div_Fin: "a \<noteq> 0 \<Longrightarrow> b \<noteq> 0 \<Longrightarrow> js_div (Fin a) (Fin b) = round_double (a / b)"
  by (simp add: js_div_def)

lemma js_add_eval:
  assumes "2 powi e \<le> \<bar>a + b\<bar>" and "\<bar>a + b\<bar> < 2 powi (e + 1)" and "- 1022 \<le> e" and "e \<le> 1022"
    and "d = of_int n * 2 powi (e - 52)"
    and "\<bar>a + b - d\<bar> < 2 powi (e - 53) \<or> (\<bar>a + b - d\<bar> = 2 powi (e - 53) \<and> even n)"
  shows "js_add (Fin a) (Fin b) = Fin d"
  using nonzero_of_binade [OF assms(1)] round_double_eval [OF assms]
  by (simp add: js_add_Fin)

lemma js_sub_eval:
  assumes "2 powi e \<le> \<bar>a - b\<bar>" and "\<bar>a - b\<bar> < 2 powi (e + 1)" and "- 1022 \<le> e" and "e \<le> 1022"
    and "d = of_int n * 2 powi (e - 52)"
    and "\<bar>a - b - d\<bar> < 2 powi (e - 53) \<or> (\<bar>a - b - d\<bar> = 2 powi (e - 53) \<and> even n)"
  shows "js_sub (Fin a) (Fin b) = Fin d"
  using nonzero_of_binade [OF assms(1)] round_double_eval [OF assms]
  by (simp add: js_sub_Fin)

lemma js_mul_eval:
  assumes "2 powi e \<le> \<bar>a * b\<bar>" and "\<bar>a * b\<bar> < 2 powi (e + 1)" and "- 1022 \<le> e" and "e \<le> 1022"
    and "d = of_int n * 2 powi (e - 52)"
    and "\<bar>a * b - d\<bar> < 2 powi (e - 53) \<or> (\<bar>a * b - d\<bar> = 2 powi (e - 53) \<and> even n)"
  shows "js_mul (Fin a) (Fin b) = Fin d"
  using nonzero_of_binade [OF assms(1)] round_double_eval [OF assms]
  by (simp add: js_mul_Fin)

lemma js_div_eval:
  assumes "2 powi e \<le> \<bar>a / b\<bar>" and "\<bar>a / b\<bar> < 2 powi (e + 1)" and "- 1022 \<le> e" and "e \<le> 1022"
    and "d = of_int n * 2 powi (e - 52)"
    and "\<bar>a / b - d\<bar> < 2 powi (e - 53) \<or> (\<bar>a / b - d\<bar> = 2 powi (e - 53) \<and> even n)"
  shows "js_div (Fin a) (Fin b) = Fin d"
  using nonzero_of_binade [OF assms(1)] round_double_eval [OF assms]
  by (simp add: js_div_Fin)

lemma js_pow2_eval:
  assumes "2 powi e \<le> \<bar>r\<^sup>2\<bar>" and "\<bar>r\<^sup>2\<bar> < 2 powi (e + 1)" and "- 1022 \<le> e" and "e \<le> 1022"
    and "d = of_int n * 2 powi (e - 52)"
    and "\<bar>r\<^sup>2 - d\<bar> < 2 powi (e - 53) \<or> (\<bar>r\<^sup>2 - d\<bar> = 2 powi (e - 53) \<and> even n)"
  shows "js_pow2 (Fin r) = Fin d"
  using nonzero_of_binade [OF assms(1)] round_double_eval [OF assms]
  by (simp add: js_pow2_def)

text \<open>
  The square root of a double is never half-way between two doubles, so it is placed
  by squares: \<open>d\<close> is the double nearest to \<open>sqrt s\<close> when \<open>s\<close> lies strictly
  between the squares of the two midpoints around \<open>d\<close>.
\<close>

lemma js_sqrt_eval:
  assumes "(2 powi e)\<^sup>2 \<le> s" and "s < (2 powi (e + 1))\<^sup>2" and "- 1022 \<le> e" and "e \<le> 1022"
    and "d = of_int n * 2 powi (e - 52)"
    and "2 powi (e - 53) \<le> d"
    and "(d - 2 powi (e - 53))\<^sup>2 < s" and "s < (d + 2 powi (e - 53))\<^sup>2"
  shows "js_sqrt (Fin s) = Fin d"
proof -
  have p: "0 < (2::real) powi e" and p1: "0 < (2::real) powi (e + 1)"
    and h: "0 < (2::real) powi (e - 53)"
    by (simp_all add: zero_less_power_int)
  have s: "0 < s"
    using assms(1) p by (smt (verit) zero_less_power)
  have lo: "2 powi e \<le> sqrt s"
    using assms(1) by (rule real_le_rsqrt)
  have hi: "sqrt s < 2 powi (e + 1)"
  proof (rule real_less_lsqrt)
    show "0 \<le> (2::real) powi (e + 1)"
      using p1 by linarith
  qed (use s assms(2) in simp_all)
  have "d - 2 powi (e - 53) < sqrt s"
    using assms(7) by (rule real_less_rsqrt)
  moreover have "sqrt s < d + 2 powi (e - 53)"
  proof (rule real_less_lsqrt)
    show "0 \<le> d + 2 powi (e - 53)"
      using assms(6) h by linarith
  qed (use s assms(8) in simp_all)
  ultimately have near: "\<bar>sqrt s - d\<bar> < 2 powi (e - 53)"
    by (simp add: abs_less_iff)
  have "round_double (sqrt s) = Fin d"
  proof (rule round_double_eval [where e = e and n = n])
    show "2 powi e \<le> \<bar>sqrt s\<bar>" and "\<bar>sqrt s\<bar> < 2 powi (e + 1)"
      using lo hi s by simp_all
    show "\<bar>sqrt s - d\<bar> < 2 powi (e - 53) \<or> (\<bar>sqrt s - d\<bar> = 2 powi (e - 53) \<and> even n)"
      using near by simp
  qed (use assms in simp_all)
  then show ?thesis
    using s by (simp add: js_sqrt_def)
qed

lemma js_mul_overflow:
  assumes "2 ^ 1024 \<le> a * b"
  shows "js_mul (Fin a) (Fin b) = PInf"
proof -
  have pos: "0 < a * b"
    using assms by (smt (verit) zero_less_power)
  then have nz: "a * b \<noteq> 0"
    by linarith
  have "round_double (a * b) = PInf"
    using assms pos round_double_overflow [of "a * b"] by (simp add: inf_of_def)
  then show ?thesis
    by (simp only: js_mul_Fin [OF nz])
qed

lemma js_pow2_underflow:
  assumes "r \<noteq> 0" and "r\<^sup>2 < 2 powi (- 1075)"
  shows "js_pow2 (Fin r) = Fin 0"
  using assms round_double_underflow [of "r\<^sup>2"] by (simp add: js_pow2_def zero_of_def)

section \<open>The constants and the rocket as doubles\<close>

lemma G_double: "G = Fin (2581878694434571 / 38685626227668133590597632)"
  unfolding G_def
  by (rule round_double_eval [where e = "-34" and n = "5163757388869142"])
    (simp_all add: power_int_def power_divide)

lemma MASS_OF_EARTH_double: "MASS_OF_EARTH = Fin 5972000000000000327155712"
  unfolding MASS_OF_EARTH_def
  by (rule round_double_eval [where e = "82" and n = "5561858415603638"])
    (simp_all add: power_int_def power_divide)

lemma RADIUS_OF_EARTH_double: "RADIUS_OF_EARTH = Fin 6371000"
  unfolding RADIUS_OF_EARTH_def
  by (rule js_mul_eval [where e = "22" and n = "6840809160704000"])
    (simp_all add: power_int_def power_divide)

lemma frameSeconds_double: "frameSeconds = Fin (3602879701896397 / 36028797018963968)"
  unfolding frameSeconds_def FRAME_DURATION_def
  by (rule js_div_eval [where e = "-4" and n = "7205759403792794"])
    (simp_all add: power_int_def power_divide)

lemma rocket_y_double: "js_add (Fin 6371000) (Fin 10000) = Fin 6381000"
  by (rule js_add_eval [where e = "22" and n = "6851546578944000"])
    (simp_all add: power_int_def power_divide)

lemma rocket_fields [simp]:
  "body_x rocket = Fin 0" "body_y rocket = Fin 6381000" "mass rocket = Fin 7000"
  "engineForceVector rocket = \<lparr>vec_x = Fin 0, vec_y = Fin 100000\<rparr>"
  "accelerationVector rocket = \<lparr>vec_x = Fin 0, vec_y = Fin 0\<rparr>"
  "velocityVector rocket = \<lparr>vec_x = Fin 0, vec_y = Fin 0\<rparr>"
  by (simp_all add: rocket_def RADIUS_OF_EARTH_double rocket_y_double)

lemma frame_at_origin [simp]:
  "frame_x FrameOfReference = Fin 0" "frame_y FrameOfReference = Fin 0"
  by (simp_all add: FrameOfReference_def)

lemma spec_r_on_axis [simp]: "spec_r (0, y) = \<bar>y\<bar>" "spec_r (x, 0) = \<bar>x\<bar>"
  by (simp_all add: spec_r_def spec_d_def)

lemma finite_body_rocket: "finite_body rocket"
  by (simp add: finite_body_def finite_vector_def)

lemma position_rocket: "position rocket = (0, 6381000)"
  by (simp add: position_def)

section \<open>The steps of the examples, operation by operation\<close>

text \<open>
  Each step below is the callback run in doubles: every operation is placed in its
  binade, and its result is the double the rounding lemmas select.
\<close>

text \<open>
  The rocket stepped by 0.1 s, the engine on.
\<close>

lemma rocket_forward:
  shows "recalculateBody frameSeconds True rocket =
     rocket
       \<lparr>accelerationVector := \<lparr>vec_x = Fin 0, vec_y = Fin (5063099310613227 / 1125899906842624)\<rparr>,
        velocityVector := \<lparr>vec_x = Fin 0, vec_y = Fin (2025239724245291 / 9007199254740992)\<rparr>,
        body_x := Fin 0, body_y := Fin (6851546591015369 / 1073741824)\<rparr>"
    and "absoluteDistanceToEarth rocket = Fin 6381000"
    and "absoluteGravitationalForce rocket = Fin (4708758270872181 / 68719476736)"
    and "cosineTheta rocket = Fin 0"
    and "sineTheta rocket = Fin (- 1)"
    and "gravitationalForce rocket = \<lparr>vec_x = Fin 0, vec_y = Fin (- (4708758270872181 / 68719476736))\<rparr>"
proof -
  have e1: "js_sub (Fin 0) (Fin 0) = (Fin 0)"
    by (simp add: js_add_def js_sub_def js_mul_def js_div_def zero_of_def inf_of_def)
  have e2: "js_sub (Fin 0) (Fin 6381000) = (Fin (- 6381000))"
    by (rule js_sub_eval [where e = "22" and n = "-6851546578944000"])
      (simp_all add: power_int_def power_divide)
  have e3: "js_pow2 (Fin 0) = (Fin 0)"
    by (simp add: js_pow2_def)
  have e4: "js_pow2 (Fin (- 6381000)) = (Fin 40717161000000)"
    by (rule js_pow2_eval [where e = "45" and n = "5211796608000000"])
      (simp_all add: power_int_def power_divide)
  have e5: "js_add (Fin 0) (Fin 40717161000000) = (Fin 40717161000000)"
    by (rule js_add_eval [where e = "45" and n = "5211796608000000"])
      (simp_all add: power_int_def power_divide)
  have e6: "js_sqrt (Fin 40717161000000) = (Fin 6381000)"
    by (rule js_sqrt_eval [where e = "22" and n = "6851546578944000"])
      (simp_all add: power_int_def power_divide)
  have e7: "js_mul (Fin (2581878694434571 / 38685626227668133590597632)) (Fin 5972000000000000327155712) = (Fin 398571280000000)"
    by (rule js_mul_eval [where e = "48" and n = "6377140480000000"])
      (simp_all add: power_int_def power_divide)
  have e8: "js_mul (Fin 398571280000000) (Fin 7000) = (Fin 2789998960000000000)"
    by (rule js_mul_eval [where e = "61" and n = "5449216718750000"])
      (simp_all add: power_int_def power_divide)
  have e9: "js_pow2 (Fin 6381000) = (Fin 40717161000000)"
    by (rule js_pow2_eval [where e = "45" and n = "5211796608000000"])
      (simp_all add: power_int_def power_divide)
  have e10: "js_div (Fin 2789998960000000000) (Fin 40717161000000) = (Fin (4708758270872181 / 68719476736))"
    by (rule js_div_eval [where e = "16" and n = "4708758270872181"])
      (simp_all add: power_int_def power_divide)
  have e11: "js_div (Fin 0) (Fin 6381000) = (Fin 0)"
    by (simp add: js_add_def js_sub_def js_mul_def js_div_def zero_of_def inf_of_def)
  have e12: "js_div (Fin (- 6381000)) (Fin 6381000) = (Fin (- 1))"
    by (rule js_div_eval [where e = "0" and n = "-4503599627370496"])
      (simp_all add: power_int_def power_divide)
  have e13: "js_mul (Fin (4708758270872181 / 68719476736)) (Fin 0) = (Fin 0)"
    by (simp add: js_add_def js_sub_def js_mul_def js_div_def zero_of_def inf_of_def)
  have e14: "js_mul (Fin (4708758270872181 / 68719476736)) (Fin (- 1)) = (Fin (- (4708758270872181 / 68719476736)))"
    by (rule js_mul_eval [where e = "16" and n = "-4708758270872181"])
      (simp_all add: power_int_def power_divide)
  have e15: "js_add (Fin 0) (Fin 0) = (Fin 0)"
    by (simp add: js_add_def js_sub_def js_mul_def js_div_def zero_of_def inf_of_def)
  have e16: "js_div (Fin 0) (Fin 7000) = (Fin 0)"
    by (simp add: js_add_def js_sub_def js_mul_def js_div_def zero_of_def inf_of_def)
  have e17: "js_add (Fin 100000) (Fin (- (4708758270872181 / 68719476736))) = (Fin (2163189402727819 / 68719476736))"
    by (rule js_add_eval [where e = "14" and n = "8652757610911276"])
      (simp_all add: power_int_def power_divide)
  have e18: "js_div (Fin (2163189402727819 / 68719476736)) (Fin 7000) = (Fin (5063099310613227 / 1125899906842624))"
    by (rule js_div_eval [where e = "2" and n = "5063099310613227"])
      (simp_all add: power_int_def power_divide)
  have e19: "js_mul (Fin 0) (Fin (3602879701896397 / 36028797018963968)) = (Fin 0)"
    by (simp add: js_add_def js_sub_def js_mul_def js_div_def zero_of_def inf_of_def)
  have e20: "js_div (Fin 0) (Fin 2) = (Fin 0)"
    by (simp add: js_add_def js_sub_def js_mul_def js_div_def zero_of_def inf_of_def)
  have e21: "js_add (Fin (5063099310613227 / 1125899906842624)) (Fin 0) = (Fin (5063099310613227 / 1125899906842624))"
    by (rule js_add_eval [where e = "2" and n = "5063099310613227"])
      (simp_all add: power_int_def power_divide)
  have e22: "js_mul (Fin (5063099310613227 / 1125899906842624)) (Fin (3602879701896397 / 36028797018963968)) = (Fin (2025239724245291 / 4503599627370496))"
    by (rule js_mul_eval [where e = "-2" and n = "8100958896981164"])
      (simp_all add: power_int_def power_divide)
  have e23: "js_div (Fin (2025239724245291 / 4503599627370496)) (Fin 2) = (Fin (2025239724245291 / 9007199254740992))"
    by (rule js_div_eval [where e = "-3" and n = "8100958896981164"])
      (simp_all add: power_int_def power_divide)
  have e24: "js_add (Fin (2025239724245291 / 9007199254740992)) (Fin 0) = (Fin (2025239724245291 / 9007199254740992))"
    by (rule js_add_eval [where e = "-3" and n = "8100958896981164"])
      (simp_all add: power_int_def power_divide)
  have e25: "js_mul (Fin (2025239724245291 / 9007199254740992)) (Fin (3602879701896397 / 36028797018963968)) = (Fin (1620191779396233 / 72057594037927936))"
    by (rule js_mul_eval [where e = "-6" and n = "6480767117584932"])
      (simp_all add: power_int_def power_divide)
  have e26: "js_div (Fin (1620191779396233 / 72057594037927936)) (Fin 2) = (Fin (1620191779396233 / 144115188075855872))"
    by (rule js_div_eval [where e = "-7" and n = "6480767117584932"])
      (simp_all add: power_int_def power_divide)
  have e27: "js_add (Fin (1620191779396233 / 144115188075855872)) (Fin 6381000) = (Fin (6851546591015369 / 1073741824))"
    by (rule js_add_eval [where e = "22" and n = "6851546591015369"])
      (simp_all add: power_int_def power_divide)
  show "recalculateBody frameSeconds True rocket =
     rocket
       \<lparr>accelerationVector := \<lparr>vec_x = Fin 0, vec_y = Fin (5063099310613227 / 1125899906842624)\<rparr>,
        velocityVector := \<lparr>vec_x = Fin 0, vec_y = Fin (2025239724245291 / 9007199254740992)\<rparr>,
        body_x := Fin 0, body_y := Fin (6851546591015369 / 1073741824)\<rparr>"
    and "absoluteDistanceToEarth rocket = Fin 6381000"
    and "absoluteGravitationalForce rocket = Fin (4708758270872181 / 68719476736)"
    and "cosineTheta rocket = Fin 0"
    and "sineTheta rocket = Fin (- 1)"
    and "gravitationalForce rocket = \<lparr>vec_x = Fin 0, vec_y = Fin (- (4708758270872181 / 68719476736))\<rparr>"
    by (simp_all add: recalculateBody_def newPosition_def newVelocity_def newAcceleration_def
      gravitationalForce_def cosineTheta_def sineTheta_def absoluteGravitationalForce_def
      absoluteDistanceToEarth_def distanceToEarth_def G_double MASS_OF_EARTH_double
      frameSeconds_double
       e1 e2 e3 e4 e5 e6 e7 e8 e9 e10 e11 e12 e13 e14 e15 e16 e17 e18 e19 e20 e21 e22
      e23 e24 e25 e26 e27)
qed

text \<open>
  The stepped rocket stepped back by -0.1 s, the engine on.
\<close>

lemma rocket_forward_back:
  shows "recalculateBody (js_neg frameSeconds) True (rocket
       \<lparr>accelerationVector := \<lparr>vec_x = Fin 0, vec_y = Fin (5063099310613227 / 1125899906842624)\<rparr>,
        velocityVector := \<lparr>vec_x = Fin 0, vec_y = Fin (2025239724245291 / 9007199254740992)\<rparr>,
        body_x := Fin 0, body_y := Fin (6851546591015369 / 1073741824)\<rparr>) =
     (rocket
       \<lparr>accelerationVector := \<lparr>vec_x = Fin 0, vec_y = Fin (5063099310613227 / 1125899906842624)\<rparr>,
        velocityVector := \<lparr>vec_x = Fin 0, vec_y = Fin (2025239724245291 / 9007199254740992)\<rparr>,
        body_x := Fin 0, body_y := Fin (6851546591015369 / 1073741824)\<rparr>)
       \<lparr>accelerationVector := \<lparr>vec_x = Fin 0, vec_y = Fin (2531549674724243 / 562949953421312)\<rparr>,
        velocityVector := \<lparr>vec_x = Fin 0, vec_y = Fin (- (1012619869889697 / 4503599627370496))\<rparr>,
        body_x := Fin 0, body_y := Fin (6851546591015369 / 1073741824)\<rparr>"
proof -
  have e1: "js_sub (Fin 0) (Fin 0) = (Fin 0)"
    by (simp add: js_add_def js_sub_def js_mul_def js_div_def zero_of_def inf_of_def)
  have e2: "js_sub (Fin 0) (Fin (6851546591015369 / 1073741824)) = (Fin (- (6851546591015369 / 1073741824)))"
    by (rule js_sub_eval [where e = "22" and n = "-6851546591015369"])
      (simp_all add: power_int_def power_divide)
  have e3: "js_pow2 (Fin 0) = (Fin 0)"
    by (simp add: js_pow2_def)
  have e4: "js_pow2 (Fin (- (6851546591015369 / 1073741824))) = (Fin (5211796626364765 / 128))"
    by (rule js_pow2_eval [where e = "45" and n = "5211796626364765"])
      (simp_all add: power_int_def power_divide)
  have e5: "js_add (Fin 0) (Fin (5211796626364765 / 128)) = (Fin (5211796626364765 / 128))"
    by (rule js_add_eval [where e = "45" and n = "5211796626364765"])
      (simp_all add: power_int_def power_divide)
  have e6: "js_sqrt (Fin (5211796626364765 / 128)) = (Fin (6851546591015369 / 1073741824))"
    by (rule js_sqrt_eval [where e = "22" and n = "6851546591015369"])
      (simp_all add: power_int_def power_divide)
  have e7: "js_mul (Fin (2581878694434571 / 38685626227668133590597632)) (Fin 5972000000000000327155712) = (Fin 398571280000000)"
    by (rule js_mul_eval [where e = "48" and n = "6377140480000000"])
      (simp_all add: power_int_def power_divide)
  have e8: "js_mul (Fin 398571280000000) (Fin 7000) = (Fin 2789998960000000000)"
    by (rule js_mul_eval [where e = "61" and n = "5449216718750000"])
      (simp_all add: power_int_def power_divide)
  have e9: "js_pow2 (Fin (6851546591015369 / 1073741824)) = (Fin (5211796626364765 / 128))"
    by (rule js_pow2_eval [where e = "45" and n = "5211796626364765"])
      (simp_all add: power_int_def power_divide)
  have e10: "js_div (Fin 2789998960000000000) (Fin (5211796626364765 / 128)) = (Fin (147148695446249 / 2147483648))"
    by (rule js_div_eval [where e = "16" and n = "4708758254279968"])
      (simp_all add: power_int_def power_divide)
  have e11: "js_div (Fin 0) (Fin (6851546591015369 / 1073741824)) = (Fin 0)"
    by (simp add: js_add_def js_sub_def js_mul_def js_div_def zero_of_def inf_of_def)
  have e12: "js_div (Fin (- (6851546591015369 / 1073741824))) (Fin (6851546591015369 / 1073741824)) = (Fin (- 1))"
    by (rule js_div_eval [where e = "0" and n = "-4503599627370496"])
      (simp_all add: power_int_def power_divide)
  have e13: "js_mul (Fin (147148695446249 / 2147483648)) (Fin 0) = (Fin 0)"
    by (simp add: js_add_def js_sub_def js_mul_def js_div_def zero_of_def inf_of_def)
  have e14: "js_mul (Fin (147148695446249 / 2147483648)) (Fin (- 1)) = (Fin (- (147148695446249 / 2147483648)))"
    by (rule js_mul_eval [where e = "16" and n = "-4708758254279968"])
      (simp_all add: power_int_def power_divide)
  have e15: "js_add (Fin 0) (Fin 0) = (Fin 0)"
    by (simp add: js_add_def js_sub_def js_mul_def js_div_def zero_of_def inf_of_def)
  have e16: "js_div (Fin 0) (Fin 7000) = (Fin 0)"
    by (simp add: js_add_def js_sub_def js_mul_def js_div_def zero_of_def inf_of_def)
  have e17: "js_add (Fin 100000) (Fin (- (147148695446249 / 2147483648))) = (Fin (67599669353751 / 2147483648))"
    by (rule js_add_eval [where e = "14" and n = "8652757677280128"])
      (simp_all add: power_int_def power_divide)
  have e18: "js_div (Fin (67599669353751 / 2147483648)) (Fin 7000) = (Fin (2531549674724243 / 562949953421312))"
    by (rule js_div_eval [where e = "2" and n = "5063099349448486"])
      (simp_all add: power_int_def power_divide)
  have e19: "js_mul (Fin 0) (Fin (- (3602879701896397 / 36028797018963968))) = NegZero"
    by (simp add: js_add_def js_sub_def js_mul_def js_div_def zero_of_def inf_of_def)
  have e20: "js_div NegZero (Fin 2) = NegZero"
    by (simp add: js_add_def js_sub_def js_mul_def js_div_def zero_of_def inf_of_def)
  have e21: "js_add NegZero (Fin 0) = (Fin 0)"
    by (simp add: js_add_def js_sub_def js_mul_def js_div_def zero_of_def inf_of_def)
  have e22: "js_add (Fin (2531549674724243 / 562949953421312)) (Fin (5063099310613227 / 1125899906842624)) = (Fin (632887416253857 / 70368744177664))"
    by (rule js_add_eval [where e = "3" and n = "5063099330030856"])
      (simp_all add: power_int_def power_divide)
  have e23: "js_mul (Fin (632887416253857 / 70368744177664)) (Fin (- (3602879701896397 / 36028797018963968))) = (Fin (- (4050479464024685 / 4503599627370496)))"
    by (rule js_mul_eval [where e = "-1" and n = "-8100958928049370"])
      (simp_all add: power_int_def power_divide)
  have e24: "js_div (Fin (- (4050479464024685 / 4503599627370496))) (Fin 2) = (Fin (- (4050479464024685 / 9007199254740992)))"
    by (rule js_div_eval [where e = "-2" and n = "-8100958928049370"])
      (simp_all add: power_int_def power_divide)
  have e25: "js_add (Fin (- (4050479464024685 / 9007199254740992))) (Fin (2025239724245291 / 9007199254740992)) = (Fin (- (1012619869889697 / 4503599627370496)))"
    by (rule js_add_eval [where e = "-3" and n = "-8100958959117576"])
      (simp_all add: power_int_def power_divide)
  have e26: "js_add (Fin (- (1012619869889697 / 4503599627370496))) (Fin (2025239724245291 / 9007199254740992)) = (Fin (- (15534103 / 9007199254740992)))"
    by (rule js_add_eval [where e = "-30" and n = "-8339808044711936"])
      (simp_all add: power_int_def power_divide)
  have e27: "js_mul (Fin (- (15534103 / 9007199254740992))) (Fin (- (3602879701896397 / 36028797018963968))) = (Fin (6671846435769549 / 38685626227668133590597632))"
    by (rule js_mul_eval [where e = "-33" and n = "6671846435769549"])
      (simp_all add: power_int_def power_divide)
  have e28: "js_div (Fin (6671846435769549 / 38685626227668133590597632)) (Fin 2) = (Fin (6671846435769549 / 77371252455336267181195264))"
    by (rule js_div_eval [where e = "-34" and n = "6671846435769549"])
      (simp_all add: power_int_def power_divide)
  have e29: "js_add (Fin (6671846435769549 / 77371252455336267181195264)) (Fin (6851546591015369 / 1073741824)) = (Fin (6851546591015369 / 1073741824))"
    by (rule js_add_eval [where e = "22" and n = "6851546591015369"])
      (simp_all add: power_int_def power_divide)
  show "recalculateBody (js_neg frameSeconds) True (rocket
       \<lparr>accelerationVector := \<lparr>vec_x = Fin 0, vec_y = Fin (5063099310613227 / 1125899906842624)\<rparr>,
        velocityVector := \<lparr>vec_x = Fin 0, vec_y = Fin (2025239724245291 / 9007199254740992)\<rparr>,
        body_x := Fin 0, body_y := Fin (6851546591015369 / 1073741824)\<rparr>) =
     (rocket
       \<lparr>accelerationVector := \<lparr>vec_x = Fin 0, vec_y = Fin (5063099310613227 / 1125899906842624)\<rparr>,
        velocityVector := \<lparr>vec_x = Fin 0, vec_y = Fin (2025239724245291 / 9007199254740992)\<rparr>,
        body_x := Fin 0, body_y := Fin (6851546591015369 / 1073741824)\<rparr>)
       \<lparr>accelerationVector := \<lparr>vec_x = Fin 0, vec_y = Fin (2531549674724243 / 562949953421312)\<rparr>,
        velocityVector := \<lparr>vec_x = Fin 0, vec_y = Fin (- (1012619869889697 / 4503599627370496))\<rparr>,
        body_x := Fin 0, body_y := Fin (6851546591015369 / 1073741824)\<rparr>"
    by (simp add: recalculateBody_def newPosition_def newVelocity_def newAcceleration_def
      gravitationalForce_def cosineTheta_def sineTheta_def absoluteGravitationalForce_def
      absoluteDistanceToEarth_def distanceToEarth_def G_double MASS_OF_EARTH_double
      frameSeconds_double
       e1 e2 e3 e4 e5 e6 e7 e8 e9 e10 e11 e12 e13 e14 e15 e16 e17 e18 e19 e20 e21 e22
      e23 e24 e25 e26 e27 e28 e29)
qed

text \<open>
  The rocket with mass -7000 kg stepped by 0.1 s, the engine on.
\<close>

lemma negative_mass_rocket_forward:
  shows "recalculateBody frameSeconds True negative_mass_rocket =
     negative_mass_rocket
       \<lparr>accelerationVector := \<lparr>vec_x = NegZero, vec_y = Fin (- (6776367364079721 / 281474976710656))\<rparr>,
        velocityVector := \<lparr>vec_x = Fin 0, vec_y = Fin (- (5421093891263777 / 4503599627370496))\<rparr>,
        body_x := Fin 0, body_y := Fin (6851546514319525 / 1073741824)\<rparr>"
proof -
  have e1: "js_sub (Fin 0) (Fin 0) = (Fin 0)"
    by (simp add: js_add_def js_sub_def js_mul_def js_div_def zero_of_def inf_of_def)
  have e2: "js_sub (Fin 0) (Fin 6381000) = (Fin (- 6381000))"
    by (rule js_sub_eval [where e = "22" and n = "-6851546578944000"])
      (simp_all add: power_int_def power_divide)
  have e3: "js_pow2 (Fin 0) = (Fin 0)"
    by (simp add: js_pow2_def)
  have e4: "js_pow2 (Fin (- 6381000)) = (Fin 40717161000000)"
    by (rule js_pow2_eval [where e = "45" and n = "5211796608000000"])
      (simp_all add: power_int_def power_divide)
  have e5: "js_add (Fin 0) (Fin 40717161000000) = (Fin 40717161000000)"
    by (rule js_add_eval [where e = "45" and n = "5211796608000000"])
      (simp_all add: power_int_def power_divide)
  have e6: "js_sqrt (Fin 40717161000000) = (Fin 6381000)"
    by (rule js_sqrt_eval [where e = "22" and n = "6851546578944000"])
      (simp_all add: power_int_def power_divide)
  have e7: "js_mul (Fin (2581878694434571 / 38685626227668133590597632)) (Fin 5972000000000000327155712) = (Fin 398571280000000)"
    by (rule js_mul_eval [where e = "48" and n = "6377140480000000"])
      (simp_all add: power_int_def power_divide)
  have e8: "js_mul (Fin 398571280000000) (Fin (- 7000)) = (Fin (- 2789998960000000000))"
    by (rule js_mul_eval [where e = "61" and n = "-5449216718750000"])
      (simp_all add: power_int_def power_divide)
  have e9: "js_pow2 (Fin 6381000) = (Fin 40717161000000)"
    by (rule js_pow2_eval [where e = "45" and n = "5211796608000000"])
      (simp_all add: power_int_def power_divide)
  have e10: "js_div (Fin (- 2789998960000000000)) (Fin 40717161000000) = (Fin (- (4708758270872181 / 68719476736)))"
    by (rule js_div_eval [where e = "16" and n = "-4708758270872181"])
      (simp_all add: power_int_def power_divide)
  have e11: "js_div (Fin 0) (Fin 6381000) = (Fin 0)"
    by (simp add: js_add_def js_sub_def js_mul_def js_div_def zero_of_def inf_of_def)
  have e12: "js_div (Fin (- 6381000)) (Fin 6381000) = (Fin (- 1))"
    by (rule js_div_eval [where e = "0" and n = "-4503599627370496"])
      (simp_all add: power_int_def power_divide)
  have e13: "js_mul (Fin (- (4708758270872181 / 68719476736))) (Fin 0) = NegZero"
    by (simp add: js_add_def js_sub_def js_mul_def js_div_def zero_of_def inf_of_def)
  have e14: "js_mul (Fin (- (4708758270872181 / 68719476736))) (Fin (- 1)) = (Fin (4708758270872181 / 68719476736))"
    by (rule js_mul_eval [where e = "16" and n = "4708758270872181"])
      (simp_all add: power_int_def power_divide)
  have e15: "js_add (Fin 0) NegZero = (Fin 0)"
    by (simp add: js_add_def js_sub_def js_mul_def js_div_def zero_of_def inf_of_def)
  have e16: "js_div (Fin 0) (Fin (- 7000)) = NegZero"
    by (simp add: js_add_def js_sub_def js_mul_def js_div_def zero_of_def inf_of_def)
  have e17: "js_add (Fin 100000) (Fin (4708758270872181 / 68719476736)) = (Fin (2895176486118045 / 17179869184))"
    by (rule js_add_eval [where e = "17" and n = "5790352972236090"])
      (simp_all add: power_int_def power_divide)
  have e18: "js_div (Fin (2895176486118045 / 17179869184)) (Fin (- 7000)) = (Fin (- (6776367364079721 / 281474976710656)))"
    by (rule js_div_eval [where e = "4" and n = "-6776367364079721"])
      (simp_all add: power_int_def power_divide)
  have e19: "js_add NegZero (Fin 0) = (Fin 0)"
    by (simp add: js_add_def js_sub_def js_mul_def js_div_def zero_of_def inf_of_def)
  have e20: "js_mul (Fin 0) (Fin (3602879701896397 / 36028797018963968)) = (Fin 0)"
    by (simp add: js_add_def js_sub_def js_mul_def js_div_def zero_of_def inf_of_def)
  have e21: "js_div (Fin 0) (Fin 2) = (Fin 0)"
    by (simp add: js_add_def js_sub_def js_mul_def js_div_def zero_of_def inf_of_def)
  have e22: "js_add (Fin 0) (Fin 0) = (Fin 0)"
    by (simp add: js_add_def js_sub_def js_mul_def js_div_def zero_of_def inf_of_def)
  have e23: "js_add (Fin (- (6776367364079721 / 281474976710656))) (Fin 0) = (Fin (- (6776367364079721 / 281474976710656)))"
    by (rule js_add_eval [where e = "4" and n = "-6776367364079721"])
      (simp_all add: power_int_def power_divide)
  have e24: "js_mul (Fin (- (6776367364079721 / 281474976710656))) (Fin (3602879701896397 / 36028797018963968)) = (Fin (- (5421093891263777 / 2251799813685248)))"
    by (rule js_mul_eval [where e = "1" and n = "-5421093891263777"])
      (simp_all add: power_int_def power_divide)
  have e25: "js_div (Fin (- (5421093891263777 / 2251799813685248))) (Fin 2) = (Fin (- (5421093891263777 / 4503599627370496)))"
    by (rule js_div_eval [where e = "0" and n = "-5421093891263777"])
      (simp_all add: power_int_def power_divide)
  have e26: "js_add (Fin (- (5421093891263777 / 4503599627370496))) (Fin 0) = (Fin (- (5421093891263777 / 4503599627370496)))"
    by (rule js_add_eval [where e = "0" and n = "-5421093891263777"])
      (simp_all add: power_int_def power_divide)
  have e27: "js_mul (Fin (- (5421093891263777 / 4503599627370496))) (Fin (3602879701896397 / 36028797018963968)) = (Fin (- (2168437556505511 / 18014398509481984)))"
    by (rule js_mul_eval [where e = "-4" and n = "-8673750226022044"])
      (simp_all add: power_int_def power_divide)
  have e28: "js_div (Fin (- (2168437556505511 / 18014398509481984))) (Fin 2) = (Fin (- (2168437556505511 / 36028797018963968)))"
    by (rule js_div_eval [where e = "-5" and n = "-8673750226022044"])
      (simp_all add: power_int_def power_divide)
  have e29: "js_add (Fin (- (2168437556505511 / 36028797018963968))) (Fin 6381000) = (Fin (6851546514319525 / 1073741824))"
    by (rule js_add_eval [where e = "22" and n = "6851546514319525"])
      (simp_all add: power_int_def power_divide)
  show "recalculateBody frameSeconds True negative_mass_rocket =
     negative_mass_rocket
       \<lparr>accelerationVector := \<lparr>vec_x = NegZero, vec_y = Fin (- (6776367364079721 / 281474976710656))\<rparr>,
        velocityVector := \<lparr>vec_x = Fin 0, vec_y = Fin (- (5421093891263777 / 4503599627370496))\<rparr>,
        body_x := Fin 0, body_y := Fin (6851546514319525 / 1073741824)\<rparr>"
    by (simp add: recalculateBody_def newPosition_def newVelocity_def newAcceleration_def
      gravitationalForce_def cosineTheta_def sineTheta_def absoluteGravitationalForce_def
      absoluteDistanceToEarth_def distanceToEarth_def G_double MASS_OF_EARTH_double
      frameSeconds_double
      negative_mass_rocket_def e1 e2 e3 e4 e5 e6 e7 e8 e9 e10 e11 e12 e13 e14 e15 e16
      e17 e18 e19 e20 e21 e22 e23 e24 e25 e26 e27 e28 e29)
qed

text \<open>
  The rocket of mass 2^1000 kg stepped by 0.1 s, the engine on: the product with the mass overflows.
\<close>

lemma heavy_rocket_forward:
  shows "recalculateBody frameSeconds True heavy_rocket =
     heavy_rocket
       \<lparr>accelerationVector := \<lparr>vec_x = NaN, vec_y = NInf\<rparr>,
        velocityVector := \<lparr>vec_x = NaN, vec_y = NInf\<rparr>,
        body_x := NaN, body_y := NInf\<rparr>"
    and "absoluteDistanceToEarth heavy_rocket = Fin 6381000"
    and "absoluteGravitationalForce heavy_rocket = PInf"
    and "cosineTheta heavy_rocket = Fin 0"
    and "sineTheta heavy_rocket = Fin (- 1)"
    and "gravitationalForce heavy_rocket = \<lparr>vec_x = NaN, vec_y = NInf\<rparr>"
proof -
  have e1: "js_sub (Fin 0) (Fin 0) = (Fin 0)"
    by (simp add: js_add_def js_sub_def js_mul_def js_div_def zero_of_def inf_of_def)
  have e2: "js_sub (Fin 0) (Fin 6381000) = (Fin (- 6381000))"
    by (rule js_sub_eval [where e = "22" and n = "-6851546578944000"])
      (simp_all add: power_int_def power_divide)
  have e3: "js_pow2 (Fin 0) = (Fin 0)"
    by (simp add: js_pow2_def)
  have e4: "js_pow2 (Fin (- 6381000)) = (Fin 40717161000000)"
    by (rule js_pow2_eval [where e = "45" and n = "5211796608000000"])
      (simp_all add: power_int_def power_divide)
  have e5: "js_add (Fin 0) (Fin 40717161000000) = (Fin 40717161000000)"
    by (rule js_add_eval [where e = "45" and n = "5211796608000000"])
      (simp_all add: power_int_def power_divide)
  have e6: "js_sqrt (Fin 40717161000000) = (Fin 6381000)"
    by (rule js_sqrt_eval [where e = "22" and n = "6851546578944000"])
      (simp_all add: power_int_def power_divide)
  have e7: "js_mul (Fin (2581878694434571 / 38685626227668133590597632)) (Fin 5972000000000000327155712) = (Fin 398571280000000)"
    by (rule js_mul_eval [where e = "48" and n = "6377140480000000"])
      (simp_all add: power_int_def power_divide)
  have e8: "js_mul (Fin 398571280000000) (Fin 10715086071862673209484250490600018105614048117055336074437503883703510511249361224931983788156958581275946729175531468251871452856923140435984577574698574803934567774824230985421074605062371141877954182153046474983581941267398767559165543946077062914571196477686542167660429831652624386837205668069376) = PInf"
    by (rule js_mul_overflow) simp
  have e9: "js_pow2 (Fin 6381000) = (Fin 40717161000000)"
    by (rule js_pow2_eval [where e = "45" and n = "5211796608000000"])
      (simp_all add: power_int_def power_divide)
  have e10: "js_div PInf (Fin 40717161000000) = PInf"
    by (simp add: js_add_def js_sub_def js_mul_def js_div_def zero_of_def inf_of_def)
  have e11: "js_div (Fin 0) (Fin 6381000) = (Fin 0)"
    by (simp add: js_add_def js_sub_def js_mul_def js_div_def zero_of_def inf_of_def)
  have e12: "js_div (Fin (- 6381000)) (Fin 6381000) = (Fin (- 1))"
    by (rule js_div_eval [where e = "0" and n = "-4503599627370496"])
      (simp_all add: power_int_def power_divide)
  have e13: "js_mul PInf (Fin 0) = NaN"
    by (simp add: js_add_def js_sub_def js_mul_def js_div_def zero_of_def inf_of_def)
  have e14: "js_mul PInf (Fin (- 1)) = NInf"
    by (simp add: js_add_def js_sub_def js_mul_def js_div_def zero_of_def inf_of_def)
  have e15: "js_add (Fin 0) NaN = NaN"
    by (simp add: js_add_def js_sub_def js_mul_def js_div_def zero_of_def inf_of_def)
  have e16: "js_div NaN (Fin 10715086071862673209484250490600018105614048117055336074437503883703510511249361224931983788156958581275946729175531468251871452856923140435984577574698574803934567774824230985421074605062371141877954182153046474983581941267398767559165543946077062914571196477686542167660429831652624386837205668069376) = NaN"
    by (simp add: js_add_def js_sub_def js_mul_def js_div_def zero_of_def inf_of_def)
  have e17: "js_add (Fin 100000) NInf = NInf"
    by (simp add: js_add_def js_sub_def js_mul_def js_div_def zero_of_def inf_of_def)
  have e18: "js_div NInf (Fin 10715086071862673209484250490600018105614048117055336074437503883703510511249361224931983788156958581275946729175531468251871452856923140435984577574698574803934567774824230985421074605062371141877954182153046474983581941267398767559165543946077062914571196477686542167660429831652624386837205668069376) = NInf"
    by (simp add: js_add_def js_sub_def js_mul_def js_div_def zero_of_def inf_of_def)
  have e19: "js_add NaN (Fin 0) = NaN"
    by (simp add: js_add_def js_sub_def js_mul_def js_div_def zero_of_def inf_of_def)
  have e20: "js_mul NaN (Fin (3602879701896397 / 36028797018963968)) = NaN"
    by (simp add: js_add_def js_sub_def js_mul_def js_div_def zero_of_def inf_of_def)
  have e21: "js_div NaN (Fin 2) = NaN"
    by (simp add: js_add_def js_sub_def js_mul_def js_div_def zero_of_def inf_of_def)
  have e22: "js_add NInf (Fin 0) = NInf"
    by (simp add: js_add_def js_sub_def js_mul_def js_div_def zero_of_def inf_of_def)
  have e23: "js_mul NInf (Fin (3602879701896397 / 36028797018963968)) = NInf"
    by (simp add: js_add_def js_sub_def js_mul_def js_div_def zero_of_def inf_of_def)
  have e24: "js_div NInf (Fin 2) = NInf"
    by (simp add: js_add_def js_sub_def js_mul_def js_div_def zero_of_def inf_of_def)
  have e25: "js_add NInf (Fin 6381000) = NInf"
    by (simp add: js_add_def js_sub_def js_mul_def js_div_def zero_of_def inf_of_def)
  show "recalculateBody frameSeconds True heavy_rocket =
     heavy_rocket
       \<lparr>accelerationVector := \<lparr>vec_x = NaN, vec_y = NInf\<rparr>,
        velocityVector := \<lparr>vec_x = NaN, vec_y = NInf\<rparr>,
        body_x := NaN, body_y := NInf\<rparr>"
    and "absoluteDistanceToEarth heavy_rocket = Fin 6381000"
    and "absoluteGravitationalForce heavy_rocket = PInf"
    and "cosineTheta heavy_rocket = Fin 0"
    and "sineTheta heavy_rocket = Fin (- 1)"
    and "gravitationalForce heavy_rocket = \<lparr>vec_x = NaN, vec_y = NInf\<rparr>"
    by (simp_all add: recalculateBody_def newPosition_def newVelocity_def newAcceleration_def
      gravitationalForce_def cosineTheta_def sineTheta_def absoluteGravitationalForce_def
      absoluteDistanceToEarth_def distanceToEarth_def G_double MASS_OF_EARTH_double
      frameSeconds_double
      heavy_rocket_def e1 e2 e3 e4 e5 e6 e7 e8 e9 e10 e11 e12 e13 e14 e15 e16 e17 e18
      e19 e20 e21 e22 e23 e24 e25)
qed

text \<open>
  The rocket 2^-600 m beside the centre stepped by 0.1 s, the engine on: the square of the displacement underflows.
\<close>

lemma rocket_beside_origin_forward:
  shows "recalculateBody frameSeconds True rocket_beside_origin =
     rocket_beside_origin
       \<lparr>accelerationVector := \<lparr>vec_x = NInf, vec_y = NaN\<rparr>,
        velocityVector := \<lparr>vec_x = NInf, vec_y = NaN\<rparr>,
        body_x := NInf, body_y := NaN\<rparr>"
    and "absoluteDistanceToEarth rocket_beside_origin = Fin 0"
    and "absoluteGravitationalForce rocket_beside_origin = PInf"
    and "cosineTheta rocket_beside_origin = NInf"
    and "sineTheta rocket_beside_origin = NaN"
    and "gravitationalForce rocket_beside_origin = \<lparr>vec_x = NInf, vec_y = NaN\<rparr>"
proof -
  have e1: "js_sub (Fin 0) (Fin (1 / 4149515568880992958512407863691161151012446232242436899995657329690652811412908146399707048947103794288197886611300789182395151075411775307886874834113963687061181803401509523685376)) = (Fin (- (1 / 4149515568880992958512407863691161151012446232242436899995657329690652811412908146399707048947103794288197886611300789182395151075411775307886874834113963687061181803401509523685376)))"
    by (rule js_sub_eval [where e = "-600" and n = "-4503599627370496"])
      (simp_all add: power_int_def power_divide)
  have e2: "js_sub (Fin 0) (Fin 0) = (Fin 0)"
    by (simp add: js_add_def js_sub_def js_mul_def js_div_def zero_of_def inf_of_def)
  have e3: "js_pow2 (Fin (- (1 / 4149515568880992958512407863691161151012446232242436899995657329690652811412908146399707048947103794288197886611300789182395151075411775307886874834113963687061181803401509523685376))) = (Fin 0)"
    by (rule js_pow2_underflow) (simp_all add: power_int_def power_divide)
  have e4: "js_pow2 (Fin 0) = (Fin 0)"
    by (simp add: js_pow2_def)
  have e5: "js_add (Fin 0) (Fin 0) = (Fin 0)"
    by (simp add: js_add_def js_sub_def js_mul_def js_div_def zero_of_def inf_of_def)
  have e6: "js_sqrt (Fin 0) = (Fin 0)"
    by (simp add: js_sqrt_def)
  have e7: "js_mul (Fin (2581878694434571 / 38685626227668133590597632)) (Fin 5972000000000000327155712) = (Fin 398571280000000)"
    by (rule js_mul_eval [where e = "48" and n = "6377140480000000"])
      (simp_all add: power_int_def power_divide)
  have e8: "js_mul (Fin 398571280000000) (Fin 7000) = (Fin 2789998960000000000)"
    by (rule js_mul_eval [where e = "61" and n = "5449216718750000"])
      (simp_all add: power_int_def power_divide)
  have e9: "js_div (Fin 2789998960000000000) (Fin 0) = PInf"
    by (simp add: js_add_def js_sub_def js_mul_def js_div_def zero_of_def inf_of_def)
  have e10: "js_div (Fin (- (1 / 4149515568880992958512407863691161151012446232242436899995657329690652811412908146399707048947103794288197886611300789182395151075411775307886874834113963687061181803401509523685376))) (Fin 0) = NInf"
    by (simp add: js_add_def js_sub_def js_mul_def js_div_def zero_of_def inf_of_def)
  have e11: "js_div (Fin 0) (Fin 0) = NaN"
    by (simp add: js_add_def js_sub_def js_mul_def js_div_def zero_of_def inf_of_def)
  have e12: "js_mul PInf NInf = NInf"
    by (simp add: js_add_def js_sub_def js_mul_def js_div_def zero_of_def inf_of_def)
  have e13: "js_mul PInf NaN = NaN"
    by (simp add: js_add_def js_sub_def js_mul_def js_div_def zero_of_def inf_of_def)
  have e14: "js_add (Fin 0) NInf = NInf"
    by (simp add: js_add_def js_sub_def js_mul_def js_div_def zero_of_def inf_of_def)
  have e15: "js_div NInf (Fin 7000) = NInf"
    by (simp add: js_add_def js_sub_def js_mul_def js_div_def zero_of_def inf_of_def)
  have e16: "js_add (Fin 100000) NaN = NaN"
    by (simp add: js_add_def js_sub_def js_mul_def js_div_def zero_of_def inf_of_def)
  have e17: "js_div NaN (Fin 7000) = NaN"
    by (simp add: js_add_def js_sub_def js_mul_def js_div_def zero_of_def inf_of_def)
  have e18: "js_add NInf (Fin 0) = NInf"
    by (simp add: js_add_def js_sub_def js_mul_def js_div_def zero_of_def inf_of_def)
  have e19: "js_mul NInf (Fin (3602879701896397 / 36028797018963968)) = NInf"
    by (simp add: js_add_def js_sub_def js_mul_def js_div_def zero_of_def inf_of_def)
  have e20: "js_div NInf (Fin 2) = NInf"
    by (simp add: js_add_def js_sub_def js_mul_def js_div_def zero_of_def inf_of_def)
  have e21: "js_add NaN (Fin 0) = NaN"
    by (simp add: js_add_def js_sub_def js_mul_def js_div_def zero_of_def inf_of_def)
  have e22: "js_mul NaN (Fin (3602879701896397 / 36028797018963968)) = NaN"
    by (simp add: js_add_def js_sub_def js_mul_def js_div_def zero_of_def inf_of_def)
  have e23: "js_div NaN (Fin 2) = NaN"
    by (simp add: js_add_def js_sub_def js_mul_def js_div_def zero_of_def inf_of_def)
  have e24: "js_add NInf (Fin (1 / 4149515568880992958512407863691161151012446232242436899995657329690652811412908146399707048947103794288197886611300789182395151075411775307886874834113963687061181803401509523685376)) = NInf"
    by (simp add: js_add_def js_sub_def js_mul_def js_div_def zero_of_def inf_of_def)
  show "recalculateBody frameSeconds True rocket_beside_origin =
     rocket_beside_origin
       \<lparr>accelerationVector := \<lparr>vec_x = NInf, vec_y = NaN\<rparr>,
        velocityVector := \<lparr>vec_x = NInf, vec_y = NaN\<rparr>,
        body_x := NInf, body_y := NaN\<rparr>"
    and "absoluteDistanceToEarth rocket_beside_origin = Fin 0"
    and "absoluteGravitationalForce rocket_beside_origin = PInf"
    and "cosineTheta rocket_beside_origin = NInf"
    and "sineTheta rocket_beside_origin = NaN"
    and "gravitationalForce rocket_beside_origin = \<lparr>vec_x = NInf, vec_y = NaN\<rparr>"
    by (simp_all add: recalculateBody_def newPosition_def newVelocity_def newAcceleration_def
      gravitationalForce_def cosineTheta_def sineTheta_def absoluteGravitationalForce_def
      absoluteDistanceToEarth_def distanceToEarth_def G_double MASS_OF_EARTH_double
      frameSeconds_double
      rocket_beside_origin_def e1 e2 e3 e4 e5 e6 e7 e8 e9 e10 e11 e12 e13 e14 e15 e16
      e17 e18 e19 e20 e21 e22 e23 e24)
qed

text \<open>
  The rocket at the centre of the frame stepped by 0.1 s, the engine on: zero by zero.
\<close>

lemma rocket_at_origin_forward:
  shows "recalculateBody frameSeconds True rocket_at_origin =
     rocket_at_origin
       \<lparr>accelerationVector := \<lparr>vec_x = NaN, vec_y = NaN\<rparr>,
        velocityVector := \<lparr>vec_x = NaN, vec_y = NaN\<rparr>,
        body_x := NaN, body_y := NaN\<rparr>"
    and "absoluteDistanceToEarth rocket_at_origin = Fin 0"
    and "absoluteGravitationalForce rocket_at_origin = PInf"
    and "cosineTheta rocket_at_origin = NaN"
    and "sineTheta rocket_at_origin = NaN"
    and "gravitationalForce rocket_at_origin = \<lparr>vec_x = NaN, vec_y = NaN\<rparr>"
proof -
  have e1: "js_sub (Fin 0) (Fin 0) = (Fin 0)"
    by (simp add: js_add_def js_sub_def js_mul_def js_div_def zero_of_def inf_of_def)
  have e2: "js_pow2 (Fin 0) = (Fin 0)"
    by (simp add: js_pow2_def)
  have e3: "js_add (Fin 0) (Fin 0) = (Fin 0)"
    by (simp add: js_add_def js_sub_def js_mul_def js_div_def zero_of_def inf_of_def)
  have e4: "js_sqrt (Fin 0) = (Fin 0)"
    by (simp add: js_sqrt_def)
  have e5: "js_mul (Fin (2581878694434571 / 38685626227668133590597632)) (Fin 5972000000000000327155712) = (Fin 398571280000000)"
    by (rule js_mul_eval [where e = "48" and n = "6377140480000000"])
      (simp_all add: power_int_def power_divide)
  have e6: "js_mul (Fin 398571280000000) (Fin 7000) = (Fin 2789998960000000000)"
    by (rule js_mul_eval [where e = "61" and n = "5449216718750000"])
      (simp_all add: power_int_def power_divide)
  have e7: "js_div (Fin 2789998960000000000) (Fin 0) = PInf"
    by (simp add: js_add_def js_sub_def js_mul_def js_div_def zero_of_def inf_of_def)
  have e8: "js_div (Fin 0) (Fin 0) = NaN"
    by (simp add: js_add_def js_sub_def js_mul_def js_div_def zero_of_def inf_of_def)
  have e9: "js_mul PInf NaN = NaN"
    by (simp add: js_add_def js_sub_def js_mul_def js_div_def zero_of_def inf_of_def)
  have e10: "js_add (Fin 0) NaN = NaN"
    by (simp add: js_add_def js_sub_def js_mul_def js_div_def zero_of_def inf_of_def)
  have e11: "js_div NaN (Fin 7000) = NaN"
    by (simp add: js_add_def js_sub_def js_mul_def js_div_def zero_of_def inf_of_def)
  have e12: "js_add (Fin 100000) NaN = NaN"
    by (simp add: js_add_def js_sub_def js_mul_def js_div_def zero_of_def inf_of_def)
  have e13: "js_add NaN (Fin 0) = NaN"
    by (simp add: js_add_def js_sub_def js_mul_def js_div_def zero_of_def inf_of_def)
  have e14: "js_mul NaN (Fin (3602879701896397 / 36028797018963968)) = NaN"
    by (simp add: js_add_def js_sub_def js_mul_def js_div_def zero_of_def inf_of_def)
  have e15: "js_div NaN (Fin 2) = NaN"
    by (simp add: js_add_def js_sub_def js_mul_def js_div_def zero_of_def inf_of_def)
  show "recalculateBody frameSeconds True rocket_at_origin =
     rocket_at_origin
       \<lparr>accelerationVector := \<lparr>vec_x = NaN, vec_y = NaN\<rparr>,
        velocityVector := \<lparr>vec_x = NaN, vec_y = NaN\<rparr>,
        body_x := NaN, body_y := NaN\<rparr>"
    and "absoluteDistanceToEarth rocket_at_origin = Fin 0"
    and "absoluteGravitationalForce rocket_at_origin = PInf"
    and "cosineTheta rocket_at_origin = NaN"
    and "sineTheta rocket_at_origin = NaN"
    and "gravitationalForce rocket_at_origin = \<lparr>vec_x = NaN, vec_y = NaN\<rparr>"
    by (simp_all add: recalculateBody_def newPosition_def newVelocity_def newAcceleration_def
      gravitationalForce_def cosineTheta_def sineTheta_def absoluteGravitationalForce_def
      absoluteDistanceToEarth_def distanceToEarth_def G_double MASS_OF_EARTH_double
      frameSeconds_double
      rocket_at_origin_def e1 e2 e3 e4 e5 e6 e7 e8 e9 e10 e11 e12 e13 e14 e15)
qed

text \<open>
  The rocket stepped by 0.1 s, the engine off.
\<close>

lemma rocket_coasting:
  shows "recalculateBody frameSeconds False rocket =
     rocket
       \<lparr>accelerationVector := \<lparr>vec_x = Fin 0, vec_y = Fin (- (5510592536426415 / 562949953421312))\<rparr>,
        velocityVector := \<lparr>vec_x = Fin 0, vec_y = Fin (- (1102118507285283 / 2251799813685248))\<rparr>,
        body_x := Fin 0, body_y := Fin (6851546552667447 / 1073741824)\<rparr>"
proof -
  have e1: "js_sub (Fin 0) (Fin 0) = (Fin 0)"
    by (simp add: js_add_def js_sub_def js_mul_def js_div_def zero_of_def inf_of_def)
  have e2: "js_sub (Fin 0) (Fin 6381000) = (Fin (- 6381000))"
    by (rule js_sub_eval [where e = "22" and n = "-6851546578944000"])
      (simp_all add: power_int_def power_divide)
  have e3: "js_pow2 (Fin 0) = (Fin 0)"
    by (simp add: js_pow2_def)
  have e4: "js_pow2 (Fin (- 6381000)) = (Fin 40717161000000)"
    by (rule js_pow2_eval [where e = "45" and n = "5211796608000000"])
      (simp_all add: power_int_def power_divide)
  have e5: "js_add (Fin 0) (Fin 40717161000000) = (Fin 40717161000000)"
    by (rule js_add_eval [where e = "45" and n = "5211796608000000"])
      (simp_all add: power_int_def power_divide)
  have e6: "js_sqrt (Fin 40717161000000) = (Fin 6381000)"
    by (rule js_sqrt_eval [where e = "22" and n = "6851546578944000"])
      (simp_all add: power_int_def power_divide)
  have e7: "js_mul (Fin (2581878694434571 / 38685626227668133590597632)) (Fin 5972000000000000327155712) = (Fin 398571280000000)"
    by (rule js_mul_eval [where e = "48" and n = "6377140480000000"])
      (simp_all add: power_int_def power_divide)
  have e8: "js_mul (Fin 398571280000000) (Fin 7000) = (Fin 2789998960000000000)"
    by (rule js_mul_eval [where e = "61" and n = "5449216718750000"])
      (simp_all add: power_int_def power_divide)
  have e9: "js_pow2 (Fin 6381000) = (Fin 40717161000000)"
    by (rule js_pow2_eval [where e = "45" and n = "5211796608000000"])
      (simp_all add: power_int_def power_divide)
  have e10: "js_div (Fin 2789998960000000000) (Fin 40717161000000) = (Fin (4708758270872181 / 68719476736))"
    by (rule js_div_eval [where e = "16" and n = "4708758270872181"])
      (simp_all add: power_int_def power_divide)
  have e11: "js_div (Fin 0) (Fin 6381000) = (Fin 0)"
    by (simp add: js_add_def js_sub_def js_mul_def js_div_def zero_of_def inf_of_def)
  have e12: "js_div (Fin (- 6381000)) (Fin 6381000) = (Fin (- 1))"
    by (rule js_div_eval [where e = "0" and n = "-4503599627370496"])
      (simp_all add: power_int_def power_divide)
  have e13: "js_mul (Fin (4708758270872181 / 68719476736)) (Fin 0) = (Fin 0)"
    by (simp add: js_add_def js_sub_def js_mul_def js_div_def zero_of_def inf_of_def)
  have e14: "js_mul (Fin (4708758270872181 / 68719476736)) (Fin (- 1)) = (Fin (- (4708758270872181 / 68719476736)))"
    by (rule js_mul_eval [where e = "16" and n = "-4708758270872181"])
      (simp_all add: power_int_def power_divide)
  have e15: "js_add (Fin 0) (Fin 0) = (Fin 0)"
    by (simp add: js_add_def js_sub_def js_mul_def js_div_def zero_of_def inf_of_def)
  have e16: "js_div (Fin 0) (Fin 7000) = (Fin 0)"
    by (simp add: js_add_def js_sub_def js_mul_def js_div_def zero_of_def inf_of_def)
  have e17: "js_add (Fin 0) (Fin (- (4708758270872181 / 68719476736))) = (Fin (- (4708758270872181 / 68719476736)))"
    by (rule js_add_eval [where e = "16" and n = "-4708758270872181"])
      (simp_all add: power_int_def power_divide)
  have e18: "js_div (Fin (- (4708758270872181 / 68719476736))) (Fin 7000) = (Fin (- (5510592536426415 / 562949953421312)))"
    by (rule js_div_eval [where e = "3" and n = "-5510592536426415"])
      (simp_all add: power_int_def power_divide)
  have e19: "js_mul (Fin 0) (Fin (3602879701896397 / 36028797018963968)) = (Fin 0)"
    by (simp add: js_add_def js_sub_def js_mul_def js_div_def zero_of_def inf_of_def)
  have e20: "js_div (Fin 0) (Fin 2) = (Fin 0)"
    by (simp add: js_add_def js_sub_def js_mul_def js_div_def zero_of_def inf_of_def)
  have e21: "js_add (Fin (- (5510592536426415 / 562949953421312))) (Fin 0) = (Fin (- (5510592536426415 / 562949953421312)))"
    by (rule js_add_eval [where e = "3" and n = "-5510592536426415"])
      (simp_all add: power_int_def power_divide)
  have e22: "js_mul (Fin (- (5510592536426415 / 562949953421312))) (Fin (3602879701896397 / 36028797018963968)) = (Fin (- (1102118507285283 / 1125899906842624)))"
    by (rule js_mul_eval [where e = "-1" and n = "-8816948058282264"])
      (simp_all add: power_int_def power_divide)
  have e23: "js_div (Fin (- (1102118507285283 / 1125899906842624))) (Fin 2) = (Fin (- (1102118507285283 / 2251799813685248)))"
    by (rule js_div_eval [where e = "-2" and n = "-8816948058282264"])
      (simp_all add: power_int_def power_divide)
  have e24: "js_add (Fin (- (1102118507285283 / 2251799813685248))) (Fin 0) = (Fin (- (1102118507285283 / 2251799813685248)))"
    by (rule js_add_eval [where e = "-2" and n = "-8816948058282264"])
      (simp_all add: power_int_def power_divide)
  have e25: "js_mul (Fin (- (1102118507285283 / 2251799813685248))) (Fin (3602879701896397 / 36028797018963968)) = (Fin (- (1763389611656453 / 36028797018963968)))"
    by (rule js_mul_eval [where e = "-5" and n = "-7053558446625812"])
      (simp_all add: power_int_def power_divide)
  have e26: "js_div (Fin (- (1763389611656453 / 36028797018963968))) (Fin 2) = (Fin (- (1763389611656453 / 72057594037927936)))"
    by (rule js_div_eval [where e = "-6" and n = "-7053558446625812"])
      (simp_all add: power_int_def power_divide)
  have e27: "js_add (Fin (- (1763389611656453 / 72057594037927936))) (Fin 6381000) = (Fin (6851546552667447 / 1073741824))"
    by (rule js_add_eval [where e = "22" and n = "6851546552667447"])
      (simp_all add: power_int_def power_divide)
  show "recalculateBody frameSeconds False rocket =
     rocket
       \<lparr>accelerationVector := \<lparr>vec_x = Fin 0, vec_y = Fin (- (5510592536426415 / 562949953421312))\<rparr>,
        velocityVector := \<lparr>vec_x = Fin 0, vec_y = Fin (- (1102118507285283 / 2251799813685248))\<rparr>,
        body_x := Fin 0, body_y := Fin (6851546552667447 / 1073741824)\<rparr>"
    by (simp add: recalculateBody_def newPosition_def newVelocity_def newAcceleration_def
      gravitationalForce_def cosineTheta_def sineTheta_def absoluteGravitationalForce_def
      absoluteDistanceToEarth_def distanceToEarth_def G_double MASS_OF_EARTH_double
      frameSeconds_double
       e1 e2 e3 e4 e5 e6 e7 e8 e9 e10 e11 e12 e13 e14 e15 e16 e17 e18 e19 e20 e21 e22
      e23 e24 e25 e26 e27)
qed

text \<open>
  The rocket with 27 times its mass stepped by 0.1 s, the engine off.
\<close>

lemma rocket_times_27_coasting:
  shows "recalculateBody frameSeconds False rocket_times_27 =
     rocket_times_27
       \<lparr>accelerationVector := \<lparr>vec_x = Fin 0, vec_y = Fin (- (2755296268213207 / 281474976710656))\<rparr>,
        velocityVector := \<lparr>vec_x = Fin 0, vec_y = Fin (- (8816948058282263 / 18014398509481984))\<rparr>,
        body_x := Fin 0, body_y := Fin (6851546552667447 / 1073741824)\<rparr>"
proof -
  have e1: "js_sub (Fin 0) (Fin 0) = (Fin 0)"
    by (simp add: js_add_def js_sub_def js_mul_def js_div_def zero_of_def inf_of_def)
  have e2: "js_sub (Fin 0) (Fin 6381000) = (Fin (- 6381000))"
    by (rule js_sub_eval [where e = "22" and n = "-6851546578944000"])
      (simp_all add: power_int_def power_divide)
  have e3: "js_pow2 (Fin 0) = (Fin 0)"
    by (simp add: js_pow2_def)
  have e4: "js_pow2 (Fin (- 6381000)) = (Fin 40717161000000)"
    by (rule js_pow2_eval [where e = "45" and n = "5211796608000000"])
      (simp_all add: power_int_def power_divide)
  have e5: "js_add (Fin 0) (Fin 40717161000000) = (Fin 40717161000000)"
    by (rule js_add_eval [where e = "45" and n = "5211796608000000"])
      (simp_all add: power_int_def power_divide)
  have e6: "js_sqrt (Fin 40717161000000) = (Fin 6381000)"
    by (rule js_sqrt_eval [where e = "22" and n = "6851546578944000"])
      (simp_all add: power_int_def power_divide)
  have e7: "js_mul (Fin (2581878694434571 / 38685626227668133590597632)) (Fin 5972000000000000327155712) = (Fin 398571280000000)"
    by (rule js_mul_eval [where e = "48" and n = "6377140480000000"])
      (simp_all add: power_int_def power_divide)
  have e8: "js_mul (Fin 398571280000000) (Fin 189000) = (Fin 75329971919999991808)"
    by (rule js_mul_eval [where e = "66" and n = "4597776606445312"])
      (simp_all add: power_int_def power_divide)
  have e9: "js_pow2 (Fin 6381000) = (Fin 40717161000000)"
    by (rule js_pow2_eval [where e = "45" and n = "5211796608000000"])
      (simp_all add: power_int_def power_divide)
  have e10: "js_div (Fin 75329971919999991808) (Fin 40717161000000) = (Fin (1986507395524201 / 1073741824))"
    by (rule js_div_eval [where e = "20" and n = "7946029582096804"])
      (simp_all add: power_int_def power_divide)
  have e11: "js_div (Fin 0) (Fin 6381000) = (Fin 0)"
    by (simp add: js_add_def js_sub_def js_mul_def js_div_def zero_of_def inf_of_def)
  have e12: "js_div (Fin (- 6381000)) (Fin 6381000) = (Fin (- 1))"
    by (rule js_div_eval [where e = "0" and n = "-4503599627370496"])
      (simp_all add: power_int_def power_divide)
  have e13: "js_mul (Fin (1986507395524201 / 1073741824)) (Fin 0) = (Fin 0)"
    by (simp add: js_add_def js_sub_def js_mul_def js_div_def zero_of_def inf_of_def)
  have e14: "js_mul (Fin (1986507395524201 / 1073741824)) (Fin (- 1)) = (Fin (- (1986507395524201 / 1073741824)))"
    by (rule js_mul_eval [where e = "20" and n = "-7946029582096804"])
      (simp_all add: power_int_def power_divide)
  have e15: "js_add (Fin 0) (Fin 0) = (Fin 0)"
    by (simp add: js_add_def js_sub_def js_mul_def js_div_def zero_of_def inf_of_def)
  have e16: "js_div (Fin 0) (Fin 189000) = (Fin 0)"
    by (simp add: js_add_def js_sub_def js_mul_def js_div_def zero_of_def inf_of_def)
  have e17: "js_add (Fin 0) (Fin (- (1986507395524201 / 1073741824))) = (Fin (- (1986507395524201 / 1073741824)))"
    by (rule js_add_eval [where e = "20" and n = "-7946029582096804"])
      (simp_all add: power_int_def power_divide)
  have e18: "js_div (Fin (- (1986507395524201 / 1073741824))) (Fin 189000) = (Fin (- (2755296268213207 / 281474976710656)))"
    by (rule js_div_eval [where e = "3" and n = "-5510592536426414"])
      (simp_all add: power_int_def power_divide)
  have e19: "js_mul (Fin 0) (Fin (3602879701896397 / 36028797018963968)) = (Fin 0)"
    by (simp add: js_add_def js_sub_def js_mul_def js_div_def zero_of_def inf_of_def)
  have e20: "js_div (Fin 0) (Fin 2) = (Fin 0)"
    by (simp add: js_add_def js_sub_def js_mul_def js_div_def zero_of_def inf_of_def)
  have e21: "js_add (Fin (- (2755296268213207 / 281474976710656))) (Fin 0) = (Fin (- (2755296268213207 / 281474976710656)))"
    by (rule js_add_eval [where e = "3" and n = "-5510592536426414"])
      (simp_all add: power_int_def power_divide)
  have e22: "js_mul (Fin (- (2755296268213207 / 281474976710656))) (Fin (3602879701896397 / 36028797018963968)) = (Fin (- (8816948058282263 / 9007199254740992)))"
    by (rule js_mul_eval [where e = "-1" and n = "-8816948058282263"])
      (simp_all add: power_int_def power_divide)
  have e23: "js_div (Fin (- (8816948058282263 / 9007199254740992))) (Fin 2) = (Fin (- (8816948058282263 / 18014398509481984)))"
    by (rule js_div_eval [where e = "-2" and n = "-8816948058282263"])
      (simp_all add: power_int_def power_divide)
  have e24: "js_add (Fin (- (8816948058282263 / 18014398509481984))) (Fin 0) = (Fin (- (8816948058282263 / 18014398509481984)))"
    by (rule js_add_eval [where e = "-2" and n = "-8816948058282263"])
      (simp_all add: power_int_def power_divide)
  have e25: "js_mul (Fin (- (8816948058282263 / 18014398509481984))) (Fin (3602879701896397 / 36028797018963968)) = (Fin (- (7053558446625811 / 144115188075855872)))"
    by (rule js_mul_eval [where e = "-5" and n = "-7053558446625811"])
      (simp_all add: power_int_def power_divide)
  have e26: "js_div (Fin (- (7053558446625811 / 144115188075855872))) (Fin 2) = (Fin (- (7053558446625811 / 288230376151711744)))"
    by (rule js_div_eval [where e = "-6" and n = "-7053558446625811"])
      (simp_all add: power_int_def power_divide)
  have e27: "js_add (Fin (- (7053558446625811 / 288230376151711744))) (Fin 6381000) = (Fin (6851546552667447 / 1073741824))"
    by (rule js_add_eval [where e = "22" and n = "6851546552667447"])
      (simp_all add: power_int_def power_divide)
  show "recalculateBody frameSeconds False rocket_times_27 =
     rocket_times_27
       \<lparr>accelerationVector := \<lparr>vec_x = Fin 0, vec_y = Fin (- (2755296268213207 / 281474976710656))\<rparr>,
        velocityVector := \<lparr>vec_x = Fin 0, vec_y = Fin (- (8816948058282263 / 18014398509481984))\<rparr>,
        body_x := Fin 0, body_y := Fin (6851546552667447 / 1073741824)\<rparr>"
    by (simp add: recalculateBody_def newPosition_def newVelocity_def newAcceleration_def
      gravitationalForce_def cosineTheta_def sineTheta_def absoluteGravitationalForce_def
      absoluteDistanceToEarth_def distanceToEarth_def G_double MASS_OF_EARTH_double
      frameSeconds_double
      rocket_times_27_def e1 e2 e3 e4 e5 e6 e7 e8 e9 e10 e11 e12 e13 e14 e15 e16 e17 e18
      e19 e20 e21 e22 e23 e24 e25 e26 e27)
qed

section \<open>Frame: what a step keeps\<close>

lemma recalculateBody_keeps:
  "name (recalculateBody dt on b) = name b"
  "mass (recalculateBody dt on b) = mass b"
  "width (recalculateBody dt on b) = width b"
  "height (recalculateBody dt on b) = height b"
  "engineForceVector (recalculateBody dt on b) = engineForceVector b"
  by (simp_all add: recalculateBody_def)

lemma nth_recalculatePositions:
  "i < length bodies \<Longrightarrow>
   recalculatePositions bodies dt on ! i = recalculateBody dt on (bodies ! i)"
  by (simp add: recalculatePositions_def)

text \<open>
  C4. For every sequence of bodies, every deltaTime and every engine flag, the result
  has the length of the input, and the body at each index has the name, mass, width,
  height and engine force of the input body at that index.
\<close>

theorem C4_frame:
  "length (recalculatePositions bodies dt on) = length bodies \<and>
   map name (recalculatePositions bodies dt on) = map name bodies \<and>
   map mass (recalculatePositions bodies dt on) = map mass bodies \<and>
   map width (recalculatePositions bodies dt on) = map width bodies \<and>
   map height (recalculatePositions bodies dt on) = map height bodies \<and>
   map engineForceVector (recalculatePositions bodies dt on) = map engineForceVector bodies"
  by (simp add: recalculatePositions_def recalculateBody_keeps comp_def)

section \<open>The step computes the formulas of the specification, in doubles\<close>

lemma js_add_commute: "js_add a b = js_add b a"
  by (cases a; cases b) (simp_all add: js_add_def add.commute)

lemma formula_gravity_eq:
  "formula_d b = distanceToEarth b"
  "formula_r b = absoluteDistanceToEarth b"
  "formula_F_g b = absoluteGravitationalForce b"
  "formula_gravity b = gravitationalForce b"
  by (simp_all add: formula_d_def formula_r_def formula_F_g_def formula_gravity_def
      distanceToEarth_def absoluteDistanceToEarth_def absoluteGravitationalForce_def
      gravitationalForce_def cosineTheta_def sineTheta_def)

lemma formula_acceleration_eq: "formula_acceleration on b = newAcceleration on b"
  by (simp add: formula_acceleration_def formula_netForce_def formula_gravity_eq
      newAcceleration_def js_add_commute)

lemma formula_velocity_eq: "formula_velocity dt on b = newVelocity dt on b"
  by (simp add: formula_velocity_def trapezoid_def formula_acceleration_eq newVelocity_def
      js_add_commute)

lemma formula_position_eq: "formula_position dt on b = newPosition dt on b"
  by (simp add: formula_position_def trapezoid_def formula_velocity_eq newPosition_def
      js_add_commute)

text \<open>
  C1 (as the code behaves). For every sequence of bodies, every deltaTime and every
  engine flag, the step gives each body the values of the specification's formulas
  evaluated in double arithmetic, every operation rounded: the acceleration
  \<open>a' = (F_g + engineForce if engineOn else F_g + 0) / mass\<close>, where \<open>F_g\<close> is
  \<open>G * M_frame * mass / r^2\<close> times \<open>d / r\<close>, the velocity
  \<open>v' = v + (a' + a) * dt / 2\<close> with the stored acceleration \<open>a\<close>, and the position
  \<open>p' = p + (v' + v) * dt / 2\<close>.  These are not in general the real values of the
  formulas: each operation rounds, and an overflow or an underflow on the way gives an
  infinity or NaN.
\<close>

theorem C1_step_formulas_in_doubles:
  "map accelerationVector (recalculatePositions bodies dt on) =
     map (formula_acceleration on) bodies \<and>
   map velocityVector (recalculatePositions bodies dt on) =
     map (formula_velocity dt on) bodies \<and>
   map (\<lambda>b. \<lparr>vec_x = body_x b, vec_y = body_y b\<rparr>) (recalculatePositions bodies dt on) =
     map (formula_position dt on) bodies"
  by (simp add: recalculatePositions_def recalculateBody_def comp_def formula_acceleration_eq
      formula_velocity_eq formula_position_eq)

lemma frameSeconds_finite: "is_finite frameSeconds" "value_of frameSeconds \<noteq> 0"
  by (simp_all add: frameSeconds_double)

text \<open>
  C1, counterexample. The rocket with a mass of \<open>2^1000\<close> kg has finite fields, a
  mass above zero and the distance 6381000 m from the origin, and deltaTime is finite
  and not zero; \<open>G * MASS_OF_EARTH * mass\<close> overflows, and the step returns the
  acceleration and velocity (NaN, -Infinity) and the position (NaN, -Infinity), where
  the formulas over the reals give finite values.
\<close>

theorem C1_overflow_counterexample:
  "finite_body heavy_rocket \<and> 0 < value_of (mass heavy_rocket) \<and>
   0 < spec_r (position heavy_rocket) \<and>
   is_finite frameSeconds \<and> value_of frameSeconds \<noteq> 0 \<and>
   recalculatePositions [heavy_rocket] frameSeconds True =
     [heavy_rocket
        \<lparr>accelerationVector := \<lparr>vec_x = NaN, vec_y = NInf\<rparr>,
         velocityVector := \<lparr>vec_x = NaN, vec_y = NInf\<rparr>,
         body_x := NaN, body_y := NInf\<rparr>]"
  by (simp add: recalculatePositions_def heavy_rocket_forward(1) frameSeconds_finite)
    (simp add: heavy_rocket_def finite_body_def finite_vector_def position_def)

section \<open>Outside the preconditions: zero separation\<close>

lemma js_add_NaN [simp]: "js_add NaN a = NaN" "js_add a NaN = NaN"
  by (simp_all add: js_add_def)

lemma js_mul_NaN [simp]: "js_mul NaN a = NaN" "js_mul a NaN = NaN"
  by (simp_all add: js_mul_def)

lemma js_div_NaN [simp]: "js_div NaN a = NaN" "js_div a NaN = NaN"
  by (simp_all add: js_div_def)

lemma js_sub_zero: "is_zero z \<Longrightarrow> js_sub (Fin 0) z = Fin 0"
  by (cases z) (simp_all add: js_sub_def js_add_def)

lemma zero_separation:
  assumes "is_zero (body_x b)" and "is_zero (body_y b)"
  shows "absoluteDistanceToEarth b = Fin 0"
    and "cosineTheta b = NaN"
    and "sineTheta b = NaN"
  using assms
  by (simp_all add: cosineTheta_def sineTheta_def absoluteDistanceToEarth_def
      distanceToEarth_def js_sub_zero js_pow2_def js_sqrt_def js_add_def js_div_def)

lemma zero_separation_step:
  assumes "is_zero (body_x b)" and "is_zero (body_y b)"
  shows "recalculateBody dt on b =
         b\<lparr>accelerationVector := \<lparr>vec_x = NaN, vec_y = NaN\<rparr>,
           velocityVector := \<lparr>vec_x = NaN, vec_y = NaN\<rparr>,
           body_x := NaN, body_y := NaN\<rparr>"
  by (simp add: recalculateBody_def newPosition_def newVelocity_def newAcceleration_def
      gravitationalForce_def zero_separation [OF assms])

text \<open>
  C2 (as the code behaves). The source has no guard on the distance.  For every body of
  the sequence whose two coordinates are zeros (of either sign), every deltaTime and
  every engine flag, the distance \<^verbatim>\<open>absoluteDistanceToEarth\<close> is 0, the call returns
  an array of the length of its input, and in it that body has NaN as both components
  of its acceleration and of its velocity and as both coordinates; its other fields are
  kept.
\<close>

theorem C2_zero_separation_gives_NaN:
  assumes "i < length bodies"
    and "is_zero (body_x (bodies ! i))"
    and "is_zero (body_y (bodies ! i))"
  shows "absoluteDistanceToEarth (bodies ! i) = Fin 0 \<and>
         length (recalculatePositions bodies dt on) = length bodies \<and>
         recalculatePositions bodies dt on ! i =
           (bodies ! i)\<lparr>accelerationVector := \<lparr>vec_x = NaN, vec_y = NaN\<rparr>,
             velocityVector := \<lparr>vec_x = NaN, vec_y = NaN\<rparr>,
             body_x := NaN, body_y := NaN\<rparr>"
proof -
  have "length (recalculatePositions bodies dt on) = length bodies"
    by (simp add: recalculatePositions_def)
  then show ?thesis
    using assms
    by (simp add: nth_recalculatePositions zero_separation_step zero_separation(1))
qed

theorem C2_zero_separation_gives_NaN_witness:
  "is_zero (body_x ([rocket_at_origin] ! 0)) \<and> is_zero (body_y ([rocket_at_origin] ! 0)) \<and>
   absoluteDistanceToEarth ([rocket_at_origin] ! 0) = Fin 0 \<and>
   length (recalculatePositions [rocket_at_origin] frameSeconds True) = 1 \<and>
   accelerationVector (recalculatePositions [rocket_at_origin] frameSeconds True ! 0) =
     \<lparr>vec_x = NaN, vec_y = NaN\<rparr> \<and>
   velocityVector (recalculatePositions [rocket_at_origin] frameSeconds True ! 0) =
     \<lparr>vec_x = NaN, vec_y = NaN\<rparr> \<and>
   body_x (recalculatePositions [rocket_at_origin] frameSeconds True ! 0) = NaN \<and>
   body_y (recalculatePositions [rocket_at_origin] frameSeconds True ! 0) = NaN"
  using C2_zero_separation_gives_NaN [of 0 "[rocket_at_origin]" frameSeconds True]
  by (simp add: rocket_at_origin_def)

text \<open>
  C2, counterexample. The rocket placed at the centre of the frame and stepped by 0.1 s
  with the engine on: the call returns, and the body it returns carries NaN.
\<close>

theorem C2_no_error_counterexample:
  "recalculatePositions [rocket_at_origin] frameSeconds True =
     [rocket_at_origin\<lparr>accelerationVector := \<lparr>vec_x = NaN, vec_y = NaN\<rparr>,
        velocityVector := \<lparr>vec_x = NaN, vec_y = NaN\<rparr>,
        body_x := NaN, body_y := NaN\<rparr>]"
  by (simp add: recalculatePositions_def rocket_at_origin_forward(1))

section \<open>Outside the preconditions: mass zero or negative\<close>

lemma js_div_by_zero: "is_zero z \<Longrightarrow> \<not> is_finite (js_div a z)"
  by (cases a; cases z) (simp_all add: js_div_def inf_of_def)

lemma js_add_not_finite:
  "\<not> is_finite a \<Longrightarrow> \<not> is_finite (js_add a b)"
  "\<not> is_finite b \<Longrightarrow> \<not> is_finite (js_add a b)"
  by (cases a; cases b; simp add: js_add_def)+

lemma js_mul_not_finite: "\<not> is_finite a \<Longrightarrow> \<not> is_finite (js_mul a b)"
  by (cases a; cases b) (simp_all add: js_mul_def inf_of_def)

lemma js_div_not_finite: "\<not> is_finite a \<Longrightarrow> \<not> is_finite (js_div a b)"
  by (cases a; cases b) (simp_all add: js_div_def inf_of_def)

lemma trapezoid_not_finite:
  "\<not> is_finite a' \<Longrightarrow> \<not> is_finite (js_add (js_div (js_mul (js_add a' a) dt) (Fin 2)) v)"
  by (intro js_add_not_finite(1) js_div_not_finite js_mul_not_finite)

lemma zero_mass_step:
  assumes "is_zero (mass b)"
  shows "no_finite_component (accelerationVector (recalculateBody dt on b))"
    and "no_finite_component (velocityVector (recalculateBody dt on b))"
    and "\<not> is_finite (body_x (recalculateBody dt on b))"
    and "\<not> is_finite (body_y (recalculateBody dt on b))"
proof -
  have acc: "no_finite_component (newAcceleration on b)"
    using assms by (simp add: no_finite_component_def newAcceleration_def js_div_by_zero)
  then have vel: "no_finite_component (newVelocity dt on b)"
    by (simp add: no_finite_component_def newVelocity_def trapezoid_not_finite)
  then have pos: "no_finite_component (newPosition dt on b)"
    by (simp add: no_finite_component_def newPosition_def trapezoid_not_finite)
  show "no_finite_component (accelerationVector (recalculateBody dt on b))"
    and "no_finite_component (velocityVector (recalculateBody dt on b))"
    and "\<not> is_finite (body_x (recalculateBody dt on b))"
    and "\<not> is_finite (body_y (recalculateBody dt on b))"
    using acc vel pos by (simp_all add: recalculateBody_def no_finite_component_def)
qed

text \<open>
  C3 (as the code behaves). The source has no guard on the mass and does not clamp it.
  For every body of the sequence with a finite mass \<open>\<le> 0\<close>, every deltaTime and every
  engine flag, the call returns an array of the length of its input and keeps the mass
  as it is.  With mass zero (of either sign), whatever the other fields and deltaTime
  are, no component of that body's new acceleration and velocity and neither new
  coordinate is finite: each is NaN or an infinity.
\<close>

theorem C3_nonpositive_mass_is_computed:
  assumes "i < length bodies"
    and "is_finite (mass (bodies ! i))"
    and "value_of (mass (bodies ! i)) \<le> 0"
  shows "length (recalculatePositions bodies dt on) = length bodies \<and>
         mass (recalculatePositions bodies dt on ! i) = mass (bodies ! i) \<and>
         (value_of (mass (bodies ! i)) = 0 \<longrightarrow>
            no_finite_component (accelerationVector (recalculatePositions bodies dt on ! i)) \<and>
            no_finite_component (velocityVector (recalculatePositions bodies dt on ! i)) \<and>
            \<not> is_finite (body_x (recalculatePositions bodies dt on ! i)) \<and>
            \<not> is_finite (body_y (recalculatePositions bodies dt on ! i)))"
proof -
  let ?b = "bodies ! i"
  have step: "recalculatePositions bodies dt on ! i = recalculateBody dt on ?b"
    using assms(1) by (rule nth_recalculatePositions)
  have len: "length (recalculatePositions bodies dt on) = length bodies"
    by (simp add: recalculatePositions_def)
  have zero: "is_zero (mass ?b)" if "value_of (mass ?b) = 0"
    using that assms(2) by (cases "mass ?b") simp_all
  show ?thesis
    using len zero by (simp add: step zero_mass_step recalculateBody_keeps)
qed

theorem C3_nonpositive_mass_is_computed_witness:
  "is_finite (mass ([massless_rocket] ! 0)) \<and> value_of (mass ([massless_rocket] ! 0)) = 0 \<and>
   no_finite_component
     (accelerationVector (recalculatePositions [massless_rocket] frameSeconds True ! 0)) \<and>
   no_finite_component
     (velocityVector (recalculatePositions [massless_rocket] frameSeconds True ! 0)) \<and>
   \<not> is_finite (body_x (recalculatePositions [massless_rocket] frameSeconds True ! 0)) \<and>
   \<not> is_finite (body_y (recalculatePositions [massless_rocket] frameSeconds True ! 0)) \<and>
   value_of (mass ([negative_mass_rocket] ! 0)) < 0 \<and>
   mass (recalculatePositions [negative_mass_rocket] frameSeconds True ! 0) = Fin (- 7000)"
  using C3_nonpositive_mass_is_computed [of 0 "[massless_rocket]" frameSeconds True]
    C3_nonpositive_mass_is_computed [of 0 "[negative_mass_rocket]" frameSeconds True]
  by (simp add: massless_rocket_def negative_mass_rocket_def)

text \<open>
  C3, counterexample. The rocket with mass -7000 kg, stepped by 0.1 s with the engine on:
  the call returns a body with an ordinary numeric state, the acceleration
  (-0, -24.07449302694332), the velocity (0, -1.203724651347166) and the position
  (0, 6380999.939813768).
\<close>

theorem C3_numeric_result_counterexample:
  "recalculatePositions [negative_mass_rocket] frameSeconds True =
     [negative_mass_rocket
        \<lparr>accelerationVector :=
           \<lparr>vec_x = NegZero, vec_y = Fin (- (6776367364079721 / 281474976710656))\<rparr>,
         velocityVector := \<lparr>vec_x = Fin 0, vec_y = Fin (- (5421093891263777 / 4503599627370496))\<rparr>,
         body_x := Fin 0, body_y := Fin (6851546514319525 / 1073741824)\<rparr>]"
  by (simp add: recalculatePositions_def negative_mass_rocket_forward)

section \<open>The engine flag\<close>

lemma recalculateBody_engine_off:
  "recalculateBody dt False (b\<lparr>engineForceVector := e\<rparr>) =
   (recalculateBody dt False b)\<lparr>engineForceVector := e\<rparr>"
  by (simp add: recalculateBody_def newPosition_def newVelocity_def newAcceleration_def
      gravitationalForce_def cosineTheta_def sineTheta_def absoluteGravitationalForce_def
      absoluteDistanceToEarth_def distanceToEarth_def)

lemma recalculateBody_zero_engine:
  "engineForceVector b = \<lparr>vec_x = Fin 0, vec_y = Fin 0\<rparr> \<Longrightarrow>
   recalculateBody dt True b = recalculateBody dt False b"
  by (simp add: recalculateBody_def newPosition_def newVelocity_def newAcceleration_def)

text \<open>
  C5. With the engine off, replacing the engine force of every body by any other
  (\<open>e b\<close> for body \<open>b\<close>) changes nothing in the result of the step but the engine
  force that is carried over: accelerations, velocities and positions are the same.
  With the engine on and every engine force \<open>(0, 0)\<close>, the result of the step is the
  result with the engine off.  Both hold for every sequence of bodies and every
  deltaTime.
\<close>

theorem C5_engine_toggling:
  "recalculatePositions (map (\<lambda>b. b\<lparr>engineForceVector := e b\<rparr>) bodies) dt False =
     map (\<lambda>b. (recalculateBody dt False b)\<lparr>engineForceVector := e b\<rparr>) bodies \<and>
   map accelerationVector
     (recalculatePositions (map (\<lambda>b. b\<lparr>engineForceVector := e b\<rparr>) bodies) dt False) =
     map accelerationVector (recalculatePositions bodies dt False) \<and>
   map velocityVector
     (recalculatePositions (map (\<lambda>b. b\<lparr>engineForceVector := e b\<rparr>) bodies) dt False) =
     map velocityVector (recalculatePositions bodies dt False) \<and>
   map body_x
     (recalculatePositions (map (\<lambda>b. b\<lparr>engineForceVector := e b\<rparr>) bodies) dt False) =
     map body_x (recalculatePositions bodies dt False) \<and>
   map body_y
     (recalculatePositions (map (\<lambda>b. b\<lparr>engineForceVector := e b\<rparr>) bodies) dt False) =
     map body_y (recalculatePositions bodies dt False) \<and>
   recalculatePositions
     (map (\<lambda>b. b\<lparr>engineForceVector := \<lparr>vec_x = Fin 0, vec_y = Fin 0\<rparr>\<rparr>) bodies) dt True =
   recalculatePositions
     (map (\<lambda>b. b\<lparr>engineForceVector := \<lparr>vec_x = Fin 0, vec_y = Fin 0\<rparr>\<rparr>) bodies) dt False"
  by (simp add: recalculatePositions_def comp_def recalculateBody_engine_off
      recalculateBody_zero_engine)

section \<open>Bodies are stepped one by one\<close>

text \<open>
  C9. Stepping the empty sequence gives the empty sequence; the step of a sequence is
  the concatenation of the steps of its bodies, each alone; and at every index \<open>i\<close>
  the step of the one-body sequence \<open>[bodies[i]]\<close> is the one-body sequence of the
  \<open>i\<close>-th body of the step of the whole.
\<close>

theorem C9_bodies_independent:
  "recalculatePositions [] dt on = [] \<and>
   recalculatePositions bodies dt on =
     concat (map (\<lambda>b. recalculatePositions [b] dt on) bodies) \<and>
   (\<forall>i<length bodies.
      recalculatePositions [bodies ! i] dt on = [recalculatePositions bodies dt on ! i])"
  by (simp add: recalculatePositions_def)

theorem C9_bodies_independent_witness:
  "1 < length [rocket, massless_rocket] \<and>
   recalculatePositions [[rocket, massless_rocket] ! 1] (Fin (1 / 10)) True =
     [recalculatePositions [rocket, massless_rocket] (Fin (1 / 10)) True ! 1]"
  using C9_bodies_independent [of "Fin (1 / 10)" True "[rocket, massless_rocket]",
      THEN conjunct2, THEN conjunct2, THEN spec, of 1]
  by simp

section \<open>Scaling the mass\<close>

lemma GM_double: "js_mul G MASS_OF_EARTH = Fin 398571280000000"
  unfolding G_double MASS_OF_EARTH_double
  by (rule js_mul_eval [where e = "48" and n = "6377140480000000"])
    (simp_all add: power_int_def power_divide)

lemma pow2_times_negative: "(2 powi j * x < 0) = (x < 0)" for x :: real
proof -
  have "(0::real) < 2 powi j"
    by simp
  then show ?thesis
    using mult_less_cancel_left_pos [of "2 powi j" x 0] by simp
qed

lemma round_double_scale:
  assumes "scalable j x" and "x \<noteq> 0"
  shows "round_double x = Fin (round_nearest x)"
    and "round_double (2 powi j * x) = Fin (2 powi j * round_nearest x)"
    and "round_nearest x \<noteq> 0"
proof -
  have x: "2 powi (- 1022) \<le> \<bar>x\<bar>" "\<bar>x\<bar> < 2 powi 1023"
    and jx: "2 powi (- 1022) \<le> \<bar>2 powi j * x\<bar>" "\<bar>2 powi j * x\<bar> < 2 powi 1023"
    using assms by (simp_all only: scalable_def in_normal_range_def) blast+
  show "round_double x = Fin (round_nearest x)" and "round_nearest x \<noteq> 0"
    using x by (rule round_double_normal)+
  show "round_double (2 powi j * x) = Fin (2 powi j * round_nearest x)"
    using round_double_normal(1) [OF jx] round_nearest_scale [OF x(1) jx(1)] by simp
qed

lemma scaled_by_cases:
  assumes "scaled_by j n n'"
  obtains "is_zero n" and "n' = n" | g where "g \<noteq> 0" and "n = Fin g" and "n' = Fin (2 powi j * g)"
  using assms by (cases n) (auto simp add: scaled_by_def split: if_splits)

lemma js_mul_scaled:
  assumes "f \<noteq> 0" and "is_finite c" and "scalable j (f * value_of c)"
  shows "scaled_by j (js_mul (Fin f) c) (js_mul (Fin (2 powi j * f)) c)"
proof (cases "is_zero c")
  case True
  show ?thesis
    using True by (cases c) (simp_all add: js_mul_def scaled_by_def zero_of_def pow2_times_negative)
next
  case False
  then obtain v where c: "c = Fin v" and v: "v \<noteq> 0"
    using assms(2) by (cases c) simp_all
  have nz: "f * v \<noteq> 0"
    using assms(1) v by simp
  have s: "scalable j (f * v)"
    using assms(3) by (simp add: c)
  note r = round_double_scale [OF s nz]
  have "js_mul (Fin f) c = Fin (round_nearest (f * v))"
    using nz r(1) by (simp add: c js_mul_Fin)
  moreover have "js_mul (Fin (2 powi j * f)) c = Fin (2 powi j * round_nearest (f * v))"
    using nz r(2) by (simp add: c js_mul_Fin mult.assoc)
  ultimately show ?thesis
    using r(3) by (simp add: scaled_by_def)
qed

lemma js_add_zero_scaled:
  assumes "scaled_by j g g'" and "scalable j (value_of g)"
  shows "scaled_by j (js_add (Fin 0) g) (js_add (Fin 0) g')"
  using assms(1)
proof (cases rule: scaled_by_cases)
  case 1
  then show ?thesis
    by (cases g) (simp_all add: js_add_def scaled_by_def)
next
  case (2 v)
  have s: "scalable j v"
    using assms(2) 2(2) by simp
  note r = round_double_scale [OF s 2(1)]
  show ?thesis
    using 2 r by (simp add: js_add_def scaled_by_def)
qed

lemma js_div_scaled:
  assumes "scaled_by j n n'" and "m \<noteq> 0"
  shows "js_div n' (Fin (2 powi j * m)) = js_div n (Fin m)"
  using assms(1)
proof (cases rule: scaled_by_cases)
  case 1
  show ?thesis
    using 1 assms(2) by (cases n) (simp_all add: js_div_def pow2_times_negative)
next
  case (2 v)
  then show ?thesis
    using assms(2) by (simp add: js_div_def)
qed

text \<open>
  With the engine off, the acceleration of a body whose mass is multiplied by \<open>2^j\<close>
  is the same double, when no operation on the way leaves the normal range.
\<close>

lemma newAcceleration_mass_scaled:
  assumes "mass b = Fin m" and "mass_scalable j b"
  shows "newAcceleration False (b\<lparr>mass := Fin (2 powi j * m)\<rparr>) = newAcceleration False b"
proof -
  let ?b = "b\<lparr>mass := Fin (2 powi j * m)\<rparr>"
  let ?R2 = "js_pow2 (absoluteDistanceToEarth b)"
  note h = assms(2) [unfolded mass_scalable_def]
  have m: "m \<noteq> 0"
    using h assms(1) by simp
  have same: "absoluteDistanceToEarth ?b = absoluteDistanceToEarth b"
    "cosineTheta ?b = cosineTheta b" "sineTheta ?b = sineTheta b"
    by (simp_all add: cosineTheta_def sineTheta_def absoluteDistanceToEarth_def
        distanceToEarth_def)
  obtain q where q: "?R2 = Fin q" and qnz: "q \<noteq> 0"
    using h by (cases ?R2) simp_all
  have sP: "scalable j (398571280000000 * m)"
    using h by (simp add: GM_double assms(1))
  have nzP: "398571280000000 * m \<noteq> 0"
    using m by simp
  note rP = round_double_scale [OF sP nzP]
  let ?p = "round_nearest (398571280000000 * m)"
  have P: "js_mul (js_mul G MASS_OF_EARTH) (mass b) = Fin ?p"
    using rP(1) nzP by (simp add: GM_double assms(1) js_mul_Fin)
  have P': "js_mul (js_mul G MASS_OF_EARTH) (mass ?b) = Fin (2 powi j * ?p)"
    using rP(2) nzP m by (simp add: GM_double js_mul_Fin mult.left_commute)
  have sF: "scalable j (?p / q)"
    using h by (simp add: P q)
  have nzF: "?p / q \<noteq> 0"
    using rP(3) qnz by simp
  note rF = round_double_scale [OF sF nzF]
  let ?f = "round_nearest (?p / q)"
  have F: "absoluteGravitationalForce b = Fin ?f"
    using rF(1) rP(3) qnz by (simp add: absoluteGravitationalForce_def P q js_div_Fin)
  have F': "absoluteGravitationalForce ?b = Fin (2 powi j * ?f)"
    unfolding absoluteGravitationalForce_def same P' q
    using rF(2) rP(3) qnz by (simp add: js_div_Fin)
  have gx: "scaled_by j (vec_x (gravitationalForce b)) (vec_x (gravitationalForce ?b))"
    and gy: "scaled_by j (vec_y (gravitationalForce b)) (vec_y (gravitationalForce ?b))"
    unfolding gravitationalForce_def same F F'
    using h rF(3) by (simp_all add: js_mul_scaled F)
  have "scaled_by j (js_add (Fin 0) (vec_x (gravitationalForce b)))
          (js_add (Fin 0) (vec_x (gravitationalForce ?b)))"
    and "scaled_by j (js_add (Fin 0) (vec_y (gravitationalForce b)))
          (js_add (Fin 0) (vec_y (gravitationalForce ?b)))"
    using gx gy h by (simp_all add: js_add_zero_scaled)
  then show ?thesis
    using m by (simp add: newAcceleration_def assms(1) js_div_scaled)
qed

lemma recalculateBody_mass_scaled:
  assumes "mass b = Fin m" and "mass_scalable j b"
  shows "recalculateBody dt False (b\<lparr>mass := Fin (2 powi j * m)\<rparr>) =
         (recalculateBody dt False b)\<lparr>mass := Fin (2 powi j * m)\<rparr>"
  using newAcceleration_mass_scaled [OF assms]
  by (simp add: recalculateBody_def newPosition_def newVelocity_def)

text \<open>
  The rocket can be scaled by 2: the values on the way from its mass to its net force
  are far inside the normal range.
\<close>

lemma rocket_GMm: "js_mul (Fin 398571280000000) (Fin 7000) = Fin 2789998960000000000"
  by (rule js_mul_eval [where e = "61" and n = "5449216718750000"])
    (simp_all add: power_int_def power_divide)

lemma rocket_r2: "js_pow2 (Fin 6381000) = Fin 40717161000000"
  by (rule js_pow2_eval [where e = "45" and n = "5211796608000000"])
    (simp_all add: power_int_def power_divide)

lemma rocket_mass_scalable: "mass_scalable 1 rocket"
  by (simp add: mass_scalable_def rocket_forward(2,3,4,5,6) GM_double rocket_GMm rocket_r2
      scalable_def in_normal_range_def power_int_def power_divide)

text \<open>
  C6 (as the code behaves). With the engine off, for every body of the sequence, every
  integer \<open>j\<close> and every deltaTime: when the body can be scaled by \<open>2^j\<close> (finite
  mass other than zero, squared distance finite and not zero, finite cosine and sine,
  and every value on the way from the mass to the net force zero or in the normal range
  of doubles before and after the scaling), stepping the sequence with that body's mass
  \<open>m\<close> replaced by \<open>2^j * m\<close> gives the result of stepping the original sequence,
  but for the mass of that body; its new acceleration, velocity and position are the
  same doubles.
\<close>

theorem C6_mass_scaling_by_power_of_two:
  assumes "i < length bodies"
    and "mass (bodies ! i) = Fin m"
    and "mass_scalable j (bodies ! i)"
  shows "recalculatePositions (bodies[i := (bodies ! i)\<lparr>mass := Fin (2 powi j * m)\<rparr>]) dt False =
           (recalculatePositions bodies dt False)
             [i := (recalculatePositions bodies dt False ! i)\<lparr>mass := Fin (2 powi j * m)\<rparr>] \<and>
         accelerationVector
           (recalculatePositions (bodies[i := (bodies ! i)\<lparr>mass := Fin (2 powi j * m)\<rparr>]) dt False ! i) =
           accelerationVector (recalculatePositions bodies dt False ! i) \<and>
         velocityVector
           (recalculatePositions (bodies[i := (bodies ! i)\<lparr>mass := Fin (2 powi j * m)\<rparr>]) dt False ! i) =
           velocityVector (recalculatePositions bodies dt False ! i) \<and>
         body_x
           (recalculatePositions (bodies[i := (bodies ! i)\<lparr>mass := Fin (2 powi j * m)\<rparr>]) dt False ! i) =
           body_x (recalculatePositions bodies dt False ! i) \<and>
         body_y
           (recalculatePositions (bodies[i := (bodies ! i)\<lparr>mass := Fin (2 powi j * m)\<rparr>]) dt False ! i) =
           body_y (recalculatePositions bodies dt False ! i)"
proof -
  have scaled: "recalculateBody dt False ((bodies ! i)\<lparr>mass := Fin (2 powi j * m)\<rparr>) =
      (recalculateBody dt False (bodies ! i))\<lparr>mass := Fin (2 powi j * m)\<rparr>"
    using assms(2,3) by (rule recalculateBody_mass_scaled)
  show ?thesis
    using assms(1) by (simp add: recalculatePositions_def map_update scaled)
qed

theorem C6_mass_scaling_by_power_of_two_witness:
  "mass ([rocket] ! 0) = Fin 7000 \<and> mass_scalable 1 ([rocket] ! 0) \<and>
   recalculatePositions ([rocket][0 := ([rocket] ! 0)\<lparr>mass := Fin (2 powi 1 * 7000)\<rparr>])
     frameSeconds False =
   (recalculatePositions [rocket] frameSeconds False)
     [0 := (recalculatePositions [rocket] frameSeconds False ! 0)
        \<lparr>mass := Fin (2 powi 1 * 7000)\<rparr>]"
  using C6_mass_scaling_by_power_of_two [of 0 "[rocket]" 7000 1 frameSeconds]
  by (simp add: rocket_mass_scalable)

text \<open>
  C6, counterexample. The rocket (finite fields, mass 7000 kg, 6381000 m from the
  centre) and the rocket with 27 times its mass, both stepped by 0.1 s with the engine
  off: the accelerations are -9.788778741229036 and -9.788778741229034 m/s^2, the
  velocities -0.4894389370614518 and -0.48943893706145175 m/s.
\<close>

theorem C6_mass_times_27_counterexample:
  "finite_body rocket \<and> mass rocket = Fin 7000 \<and> 0 < spec_r (position rocket) \<and>
   rocket_times_27 = rocket\<lparr>mass := Fin (27 * 7000)\<rparr> \<and>
   accelerationVector (recalculatePositions [rocket] frameSeconds False ! 0) =
     \<lparr>vec_x = Fin 0, vec_y = Fin (- (5510592536426415 / 562949953421312))\<rparr> \<and>
   accelerationVector (recalculatePositions [rocket_times_27] frameSeconds False ! 0) =
     \<lparr>vec_x = Fin 0, vec_y = Fin (- (2755296268213207 / 281474976710656))\<rparr> \<and>
   velocityVector (recalculatePositions [rocket] frameSeconds False ! 0) =
     \<lparr>vec_x = Fin 0, vec_y = Fin (- (1102118507285283 / 2251799813685248))\<rparr> \<and>
   velocityVector (recalculatePositions [rocket_times_27] frameSeconds False ! 0) =
     \<lparr>vec_x = Fin 0, vec_y = Fin (- (8816948058282263 / 18014398509481984))\<rparr> \<and>
   accelerationVector (recalculatePositions [rocket_times_27] frameSeconds False ! 0) \<noteq>
     accelerationVector (recalculatePositions [rocket] frameSeconds False ! 0) \<and>
   velocityVector (recalculatePositions [rocket_times_27] frameSeconds False ! 0) \<noteq>
     velocityVector (recalculatePositions [rocket] frameSeconds False ! 0)"
  by (simp add: recalculatePositions_def rocket_coasting rocket_times_27_coasting
      finite_body_rocket position_rocket)
    (simp add: rocket_times_27_def)


section \<open>Divisors under the preconditions\<close>

lemma round_double_at_least:
  assumes "- 1074 \<le> k" and "2 powi k \<le> x"
  shows "at_least (2 powi k) (round_double x)"
proof -
  have rn: "2 powi k \<le> round_nearest x"
    using assms by (rule round_nearest_ge_pow2)
  have pos: "(0::real) < 2 powi k"
    by simp
  then have "0 < x" and "0 < round_nearest x"
    using assms(2) rn by linarith+
  then show ?thesis
    using rn by (simp add: round_double_def at_least_def inf_of_def)
qed

lemma round_double_pos_cases:
  assumes "0 < x"
  shows "round_double x = Fin 0 \<or> at_least (2 powi (- 1074)) (round_double x)"
  using round_nearest_lattice [of x] round_nearest_nonneg [of x] assms
  by (auto simp add: round_double_def at_least_def inf_of_def zero_of_def)

lemma round_double_minus: "x \<noteq> 0 \<Longrightarrow> round_double (- x) = js_neg (round_double x)"
  by (auto simp add: round_double_def round_nearest_minus inf_of_def zero_of_def)

lemma js_pow2_neg: "js_pow2 (js_neg a) = js_pow2 a"
  by (cases a) (simp_all add: js_pow2_def)

lemma js_pow2_cases:
  "js_pow2 a = NaN \<and> a = NaN \<or> js_pow2 a = Fin 0 \<or> at_least (2 powi (- 1074)) (js_pow2 a)"
proof (cases a)
  case (Fin r)
  show ?thesis
  proof (cases "r = 0")
    case True
    then show ?thesis
      by (simp add: Fin js_pow2_def)
  next
    case False
    then have "0 < r\<^sup>2"
      by simp
    then show ?thesis
      using round_double_pos_cases [of "r\<^sup>2"] False by (simp add: Fin js_pow2_def)
  qed
qed (simp_all add: js_pow2_def at_least_def)

lemma at_least_cases:
  assumes "at_least k n" and "0 < k"
  obtains "n = PInf" | s where "n = Fin s" and "k \<le> s"
  using assms by (cases n) (auto simp add: at_least_def)

lemma js_add_at_least:
  assumes "- 1074 \<le> j" and "at_least (2 powi j) a" and "b = Fin 0 \<or> at_least (2 powi j) b"
  shows "at_least (2 powi j) (js_add a b)"
proof -
  have pos: "(0::real) < 2 powi j"
    by simp
  from assms(2) pos show ?thesis
  proof (cases rule: at_least_cases)
    case 1
    then show ?thesis
      using assms(3) pos by (cases b) (auto simp add: js_add_def at_least_def)
  next
    case (2 s)
    have s: "0 < s"
      using 2(2) pos by linarith
    from assms(3) show ?thesis
    proof
      assume "b = Fin 0"
      then show ?thesis
        using 2 s round_double_at_least [OF assms(1), of s] by (simp add: js_add_def)
    next
      assume "at_least (2 powi j) b"
      from this pos show ?thesis
      proof (cases rule: at_least_cases)
        case 1
        then show ?thesis
          using 2 by (simp add: js_add_def at_least_def)
      next
        case b: (2 t)
        have "2 powi j \<le> s + t" and "s + t \<noteq> 0"
          using 2(2) b(2) pos by linarith+
        then show ?thesis
          using 2(1) b(1) round_double_at_least [OF assms(1), of "s + t"]
          by (simp add: js_add_def)
      qed
    qed
  qed
qed

lemma js_add_Fin_0_left: "b = Fin 0 \<or> at_least k b \<Longrightarrow> 0 < k \<Longrightarrow> \<not> is_inf b \<or> b = PInf"
  by (cases b) (auto simp add: at_least_def)

lemma js_add_at_least_right:
  assumes "- 1074 \<le> j" and "a = Fin 0 \<or> at_least (2 powi j) a" and "at_least (2 powi j) b"
  shows "at_least (2 powi j) (js_add a b)"
proof -
  have "js_add a b = js_add b a"
    by (cases a; cases b) (simp_all add: js_add_def add.commute)
  then show ?thesis
    using js_add_at_least [OF assms(1) assms(3) assms(2)] by simp
qed

lemma sqrt_pow2_537: "2 powi (- 537) \<le> sqrt s" if "2 powi (- 1074) \<le> s" for s :: real
proof (rule real_le_rsqrt)
  have "((2::real) powi (- 537))\<^sup>2 = 2 powi (- 1074)"
    by (simp add: power_int_def power_divide power_inverse)
  then show "(2 powi (- 537))\<^sup>2 \<le> s"
    using that by simp
qed

lemma js_sqrt_at_least:
  assumes "at_least (2 powi (- 1074)) S"
  shows "at_least (2 powi (- 537)) (js_sqrt S)"
proof -
  have pos: "(0::real) < 2 powi (- 1074)"
    by simp
  from assms pos show ?thesis
  proof (cases rule: at_least_cases)
    case 1
    then show ?thesis
      by (simp add: js_sqrt_def at_least_def)
  next
    case (2 s)
    then have "0 < s"
      using pos by linarith
    then show ?thesis
      using 2 round_double_at_least [of "- 537" "sqrt s"] sqrt_pow2_537 [of s]
      by (simp add: js_sqrt_def)
  qed
qed

lemma js_pow2_at_least:
  assumes "at_least (2 powi (- 537)) r"
  shows "at_least (2 powi (- 1074)) (js_pow2 r)"
proof -
  have pos: "(0::real) < 2 powi (- 537)"
    by simp
  from assms pos show ?thesis
  proof (cases rule: at_least_cases)
    case 1
    then show ?thesis
      by (simp add: js_pow2_def at_least_def)
  next
    case (2 s)
    have sq: "((2::real) powi (- 537))\<^sup>2 = 2 powi (- 1074)"
      by (simp add: power_int_def power_divide power_inverse)
    have "(2 powi (- 537))\<^sup>2 \<le> s\<^sup>2"
      using 2(2) pos by (intro power_mono) simp_all
    then have "2 powi (- 1074) \<le> s\<^sup>2"
      by (simp only: sq)
    moreover have "s \<noteq> 0"
      using 2(2) pos by linarith
    ultimately show ?thesis
      using 2 round_double_at_least [of "- 1074" "s\<^sup>2"] by (simp add: js_pow2_def)
  qed
qed

lemma at_least_nonzero_divisor: "0 < k \<Longrightarrow> at_least k n \<Longrightarrow> nonzero_divisor n"
  by (cases n) (auto simp add: at_least_def nonzero_divisor_def)

lemma at_least_positive: "0 < k \<Longrightarrow> at_least k n \<Longrightarrow> positive n"
  by (cases n) (auto simp add: at_least_def positive_def)

text \<open>
  The sum of the two squares is NaN, zero, or at least the least positive double
  \<open>2^-1074\<close>.
\<close>

lemma sum_of_squares_cases:
  "js_add (js_pow2 a) (js_pow2 b) = NaN \<or> js_add (js_pow2 a) (js_pow2 b) = Fin 0 \<or>
   at_least (2 powi (- 1074)) (js_add (js_pow2 a) (js_pow2 b))"
  using js_pow2_cases [of a] js_pow2_cases [of b]
    js_add_at_least [of "- 1074" "js_pow2 a" "js_pow2 b"]
    js_add_at_least_right [of "- 1074" "js_pow2 a" "js_pow2 b"]
  by (auto simp add: js_add_def)

lemma positive_distance_at_least:
  assumes "positive (absoluteDistanceToEarth b)"
  shows "at_least (2 powi (- 537)) (absoluteDistanceToEarth b)"
proof -
  let ?S = "js_add (js_pow2 (vec_x (distanceToEarth b))) (js_pow2 (vec_y (distanceToEarth b)))"
  have "?S \<noteq> NaN" and "?S \<noteq> Fin 0"
    using assms by (auto simp add: absoluteDistanceToEarth_def js_sqrt_def positive_def)
  then have "at_least (2 powi (- 1074)) ?S"
    using sum_of_squares_cases [of "vec_x (distanceToEarth b)" "vec_y (distanceToEarth b)"]
    by simp
  then show ?thesis
    unfolding absoluteDistanceToEarth_def by (rule js_sqrt_at_least)
qed

text \<open>
  A finite coordinate of magnitude \<open>2^-537\<close> or more has a square that does not
  underflow, whatever its sign.
\<close>

lemma square_of_difference_at_least:
  assumes "square_survives c"
  shows "at_least (2 powi (- 1074)) (js_pow2 (js_sub (Fin 0) c))"
proof -
  obtain x where c: "c = Fin x" and x: "2 powi (- 537) \<le> \<bar>x\<bar>"
    using assms by (cases c) (auto simp add: square_survives_def)
  have pos: "(0::real) < 2 powi (- 537)"
    by simp
  then have nz: "x \<noteq> 0"
    using x by linarith
  have sub: "js_sub (Fin 0) c = round_double (- x)"
    using nz by (simp add: c js_sub_def js_add_def)
  show ?thesis
  proof (cases "0 < x")
    case True
    then have "at_least (2 powi (- 537)) (round_double x)"
      using x by (intro round_double_at_least) simp_all
    then have "at_least (2 powi (- 1074)) (js_pow2 (js_neg (round_double x)))"
      unfolding js_pow2_neg by (rule js_pow2_at_least)
    then show ?thesis
      using nz by (simp add: sub round_double_minus)
  next
    case False
    then have "at_least (2 powi (- 537)) (round_double (- x))"
      using x by (intro round_double_at_least) simp_all
    then show ?thesis
      unfolding sub by (rule js_pow2_at_least)
  qed
qed

lemma square_of_difference_cases:
  assumes "is_finite c"
  shows "js_pow2 (js_sub (Fin 0) c) = Fin 0 \<or>
         at_least (2 powi (- 1074)) (js_pow2 (js_sub (Fin 0) c))"
proof -
  have "js_sub (Fin 0) c \<noteq> NaN"
    using assms by (cases c) (auto simp add: js_sub_def js_add_def round_double_def inf_of_def zero_of_def)
  then show ?thesis
    using js_pow2_cases [of "js_sub (Fin 0) c"] by auto
qed

lemma survivor_distance_positive:
  assumes "is_finite (body_x b)" and "is_finite (body_y b)"
    and "square_survives (body_x b) \<or> square_survives (body_y b)"
  shows "positive (absoluteDistanceToEarth b)"
proof -
  let ?X = "js_pow2 (js_sub (Fin 0) (body_x b))" and ?Y = "js_pow2 (js_sub (Fin 0) (body_y b))"
  have "at_least (2 powi (- 1074)) (js_add ?X ?Y)"
    using assms(3)
  proof
    assume "square_survives (body_x b)"
    then show ?thesis
      using square_of_difference_at_least [of "body_x b"]
        square_of_difference_cases [OF assms(2)]
      by (intro js_add_at_least) simp_all
  next
    assume "square_survives (body_y b)"
    then show ?thesis
      using square_of_difference_at_least [of "body_y b"]
        square_of_difference_cases [OF assms(1)]
      by (intro js_add_at_least_right) simp_all
  qed
  then have "at_least (2 powi (- 537)) (js_sqrt (js_add ?X ?Y))"
    by (rule js_sqrt_at_least)
  moreover have "absoluteDistanceToEarth b = js_sqrt (js_add ?X ?Y)"
    by (simp add: absoluteDistanceToEarth_def distanceToEarth_def)
  ultimately have "at_least (2 powi (- 537)) (absoluteDistanceToEarth b)"
    by (simp only:)
  then show ?thesis
    by (rule at_least_positive [rotated]) simp
qed

text \<open>
  C10 (as the code behaves). The source has no error branch: a division by zero gives
  an infinity or NaN.  For every body of the sequence with a finite mass \<open>> 0\<close>, every
  deltaTime and every engine flag: if both coordinates are finite and one of them has a
  magnitude of \<open>2^-537\<close> or more, then the distance the code computes,
  \<^verbatim>\<open>absoluteDistanceToEarth\<close>, is above zero; and whenever that computed distance is
  above zero, the four divisors of the step (the distance, its square
  \<^verbatim>\<open>absoluteDistanceToEarth ** 2\<close>, the mass and the literal 2) are numbers other than
  zero, and the call returns an array of the length of its input.  The result itself
  can still be an infinity or NaN, by overflow.
\<close>

theorem C10_divisors_nonzero:
  assumes "i < length bodies"
    and "is_finite (mass (bodies ! i))"
    and "0 < value_of (mass (bodies ! i))"
  shows "(is_finite (body_x (bodies ! i)) \<and> is_finite (body_y (bodies ! i)) \<and>
          (square_survives (body_x (bodies ! i)) \<or> square_survives (body_y (bodies ! i))) \<longrightarrow>
            positive (absoluteDistanceToEarth (bodies ! i))) \<and>
         (positive (absoluteDistanceToEarth (bodies ! i)) \<longrightarrow>
            nonzero_divisor (absoluteDistanceToEarth (bodies ! i)) \<and>
            nonzero_divisor (js_pow2 (absoluteDistanceToEarth (bodies ! i))) \<and>
            nonzero_divisor (mass (bodies ! i)) \<and>
            nonzero_divisor (Fin 2) \<and>
            length (recalculatePositions bodies dt on) = length bodies)"
proof -
  let ?b = "bodies ! i"
  have m: "nonzero_divisor (mass ?b)"
    using assms(2,3) by (cases "mass ?b") (simp_all add: nonzero_divisor_def)
  have two: "nonzero_divisor (Fin 2)"
    by (simp add: nonzero_divisor_def)
  have len: "length (recalculatePositions bodies dt on) = length bodies"
    by (simp add: recalculatePositions_def)
  have r: "nonzero_divisor (absoluteDistanceToEarth ?b)"
    and r2: "nonzero_divisor (js_pow2 (absoluteDistanceToEarth ?b))"
    if "positive (absoluteDistanceToEarth ?b)"
  proof -
    have low: "at_least (2 powi (- 537)) (absoluteDistanceToEarth ?b)"
      using that by (rule positive_distance_at_least)
    then show "nonzero_divisor (absoluteDistanceToEarth ?b)"
      by (rule at_least_nonzero_divisor [rotated]) simp
    have "at_least (2 powi (- 1074)) (js_pow2 (absoluteDistanceToEarth ?b))"
      using low by (rule js_pow2_at_least)
    then show "nonzero_divisor (js_pow2 (absoluteDistanceToEarth ?b))"
      by (rule at_least_nonzero_divisor [rotated]) simp
  qed
  show ?thesis
    using m two len r r2 survivor_distance_positive [of ?b] by blast
qed

theorem C10_divisors_nonzero_witness:
  "is_finite (mass ([rocket] ! 0)) \<and> 0 < value_of (mass ([rocket] ! 0)) \<and>
   is_finite (body_x ([rocket] ! 0)) \<and> is_finite (body_y ([rocket] ! 0)) \<and>
   square_survives (body_y ([rocket] ! 0)) \<and>
   positive (absoluteDistanceToEarth ([rocket] ! 0)) \<and>
   nonzero_divisor (absoluteDistanceToEarth ([rocket] ! 0)) \<and>
   nonzero_divisor (js_pow2 (absoluteDistanceToEarth ([rocket] ! 0))) \<and>
   nonzero_divisor (mass ([rocket] ! 0)) \<and>
   nonzero_divisor (Fin 2) \<and>
   length (recalculatePositions [rocket] frameSeconds True) = length [rocket]"
  using C10_divisors_nonzero [of 0 "[rocket]" frameSeconds True]
  by (simp add: square_survives_def power_int_def power_divide)

text \<open>
  C10, counterexample. The rocket \<open>2^-600\<close> m beside the centre of the frame has
  finite fields, the mass 7000 kg and a real distance above zero; its squared
  coordinate underflows, the computed distance and its square are 0, and the step
  divides by them: it returns the acceleration and the velocity (-Infinity, NaN) and the
  position (-Infinity, NaN).
\<close>

theorem C10_underflow_counterexample:
  "finite_body rocket_beside_origin \<and> 0 < value_of (mass rocket_beside_origin) \<and>
   0 < spec_r (position rocket_beside_origin) \<and>
   absoluteDistanceToEarth rocket_beside_origin = Fin 0 \<and>
   \<not> nonzero_divisor (absoluteDistanceToEarth rocket_beside_origin) \<and>
   \<not> nonzero_divisor (js_pow2 (absoluteDistanceToEarth rocket_beside_origin)) \<and>
   recalculatePositions [rocket_beside_origin] frameSeconds True =
     [rocket_beside_origin
        \<lparr>accelerationVector := \<lparr>vec_x = NInf, vec_y = NaN\<rparr>,
         velocityVector := \<lparr>vec_x = NInf, vec_y = NaN\<rparr>,
         body_x := NInf, body_y := NaN\<rparr>]"
  by (simp add: recalculatePositions_def rocket_beside_origin_forward(1,2) nonzero_divisor_def
      js_pow2_def)
    (simp add: rocket_beside_origin_def finite_body_def finite_vector_def position_def
      spec_r_def spec_d_def)

section \<open>A step forward and a step back\<close>

text \<open>
  The rocket after one step of 0.1 s with the engine on: the state the doubles give.
  The acceleration is 4.4969355444852495 m/s^2, the velocity 0.2248467772242625 m/s and
  the height 6381000.011242338 m.
\<close>

lemma rocket_stepped_eq:
  "rocket_stepped =
     rocket
       \<lparr>accelerationVector := \<lparr>vec_x = Fin 0, vec_y = Fin (5063099310613227 / 1125899906842624)\<rparr>,
        velocityVector := \<lparr>vec_x = Fin 0, vec_y = Fin (2025239724245291 / 9007199254740992)\<rparr>,
        body_x := Fin 0, body_y := Fin (6851546591015369 / 1073741824)\<rparr>"
  by (simp add: rocket_stepped_def recalculatePositions_def rocket_forward(1))

lemma rocket_stepped_values:
  "finite_body rocket_stepped"
  "position rocket_stepped = (0, 6851546591015369 / 1073741824)"
  by (simp_all add: rocket_stepped_eq finite_body_def finite_vector_def position_def)

text \<open>
  The rocket stepped forward by 0.1 s and then back by -0.1 s, the engine on.  It
  started at rest at 6381000 m with a stored acceleration of zero; it returns about
  0.0112 m higher, with a velocity of -0.22484677894889438 m/s and an acceleration of
  4.496935578977888 m/s^2.
\<close>

lemma rocket_round_trip:
  "recalculateBody (js_neg frameSeconds) True rocket_stepped =
     rocket
       \<lparr>accelerationVector := \<lparr>vec_x = Fin 0, vec_y = Fin (2531549674724243 / 562949953421312)\<rparr>,
        velocityVector := \<lparr>vec_x = Fin 0, vec_y = Fin (- (1012619869889697 / 4503599627370496))\<rparr>,
        body_x := Fin 0, body_y := Fin (6851546591015369 / 1073741824)\<rparr>"
  by (simp add: rocket_stepped_eq rocket_forward_back)

text \<open>
  The same round trip as the driver makes it: \<^verbatim>\<open>toNextFrame\<close> and then
  \<^verbatim>\<open>toPreviousFrame\<close> on the initial state of \<^verbatim>\<open>App\<close>.
\<close>

lemma frame_deltas:
  "toNextFrame on bodies = recalculatePositions bodies frameSeconds on"
  "toPreviousFrame on bodies = recalculatePositions bodies (js_neg frameSeconds) on"
proof -
  have "js_div (Fin (- 100)) (Fin 1000) = Fin (- (3602879701896397 / 36028797018963968))"
    by (rule js_div_eval [where e = "-4" and n = "-7205759403792794"])
      (simp_all add: power_int_def power_divide)
  then show "toPreviousFrame on bodies = recalculatePositions bodies (js_neg frameSeconds) on"
    by (simp add: toPreviousFrame_def FRAME_DURATION_def frameSeconds_double)
  show "toNextFrame on bodies = recalculatePositions bodies frameSeconds on"
    by (simp add: toNextFrame_def frameSeconds_def)
qed

lemma next_then_previous_frame:
  "toPreviousFrame True (toNextFrame True [rocket]) =
     [recalculateBody (js_neg frameSeconds) True rocket_stepped]"
  by (simp add: frame_deltas rocket_stepped_def recalculatePositions_def)

lemma driver_round_trip_drifts:
  "toPreviousFrame True (toNextFrame True [rocket]) =
     [rocket
       \<lparr>accelerationVector := \<lparr>vec_x = Fin 0, vec_y = Fin (2531549674724243 / 562949953421312)\<rparr>,
        velocityVector := \<lparr>vec_x = Fin 0, vec_y = Fin (- (1012619869889697 / 4503599627370496))\<rparr>,
        body_x := Fin 0, body_y := Fin (6851546591015369 / 1073741824)\<rparr>]"
  by (simp only: next_then_previous_frame rocket_round_trip)

text \<open>
  C7. The step is not exactly reversible: there are a body with finite fields, mass
  \<open>> 0\<close> and distance \<open>r > 0\<close>, a finite deltaTime other than zero and an engine flag
  such that the body stepped by deltaTime is again finite and at a distance \<open>r > 0\<close>,
  and stepping it by minus deltaTime with the same flag gives a finite state whose
  position, velocity and acceleration each differ, as numbers, from the original ones.
  The rocket of \<^verbatim>\<open>App\<close> with deltaTime 0.1 s and the engine on is such a body.
\<close>

theorem C7_not_time_reversible:
  "\<exists>b dt on.
     finite_body b \<and> 0 < value_of (mass b) \<and> 0 < spec_r (position b) \<and>
     is_finite dt \<and> value_of dt \<noteq> 0 \<and>
     finite_body (recalculatePositions [b] dt on ! 0) \<and>
     0 < spec_r (position (recalculatePositions [b] dt on ! 0)) \<and>
     finite_body (recalculatePositions (recalculatePositions [b] dt on) (js_neg dt) on ! 0) \<and>
     position (recalculatePositions (recalculatePositions [b] dt on) (js_neg dt) on ! 0)
       \<noteq> position b \<and>
     reals_of (velocityVector
       (recalculatePositions (recalculatePositions [b] dt on) (js_neg dt) on ! 0))
       \<noteq> reals_of (velocityVector b) \<and>
     reals_of (accelerationVector
       (recalculatePositions (recalculatePositions [b] dt on) (js_neg dt) on ! 0))
       \<noteq> reals_of (accelerationVector b)"
proof -
  let ?dt = "frameSeconds"
  let ?again = "recalculatePositions (recalculatePositions [rocket] ?dt True) (js_neg ?dt) True ! 0"
  have again: "?again = recalculateBody (js_neg frameSeconds) True rocket_stepped"
    by (simp add: rocket_stepped_def recalculatePositions_def)
  have "finite_body ?again"
    and "position ?again \<noteq> position rocket"
    and "reals_of (velocityVector ?again) \<noteq> reals_of (velocityVector rocket)"
    and "reals_of (accelerationVector ?again) \<noteq> reals_of (accelerationVector rocket)"
    unfolding again rocket_round_trip
    by (simp_all add: finite_body_def finite_vector_def position_def reals_of_def)
  moreover have "finite_body (recalculatePositions [rocket] ?dt True ! 0)"
    and "0 < spec_r (position (recalculatePositions [rocket] ?dt True ! 0))"
    using rocket_stepped_values
    by (simp_all add: rocket_stepped_def)
  moreover have "finite_body rocket" and "0 < value_of (mass rocket)"
    and "0 < spec_r (position rocket)" and "is_finite ?dt" and "value_of ?dt \<noteq> 0"
    by (simp_all add: finite_body_rocket position_rocket frameSeconds_finite)
  ultimately show ?thesis
    by blast
qed

section \<open>The scenario of the specification\<close>

lemma rocket_stepped_y:
  "value_of (vec_y (accelerationVector rocket_stepped)) = 5063099310613227 / 1125899906842624"
  "value_of (vec_y (velocityVector rocket_stepped)) = 2025239724245291 / 9007199254740992"
  "value_of (body_y rocket_stepped) = 6851546591015369 / 1073741824"
  by (simp_all add: rocket_stepped_eq)

lemma gravity_at_rocket:
  "value_of (absoluteGravitationalForce rocket) / 7000 = 4708758270872181 / 481036337152000"
  by (simp add: rocket_forward(3))

text \<open>
  C8 (as the code behaves). For the body at (0, 6381000) with mass 7000, velocity and
  acceleration (0, 0) and engine force (0, 100000), stepped by 0.1 s with the engine on,
  the result is finite and its \<open>y\<close> components are, within a relative tolerance of
  1e-3: acceleration 100000/7000 - 9.7888, which is 4.497 m/s^2; velocity 0.2248 m/s;
  position 6381000.011 m.  The gravitational acceleration \<open>G * 5.972e24 / 6381000^2\<close>
  is 9.7888 m/s^2 within that tolerance.
\<close>

theorem C8_scenario:
  "finite_body rocket_stepped \<and>
   within_relative_tolerance (1 / 1000) (97888 / 10000)
     (value_of (absoluteGravitationalForce rocket) / 7000) \<and>
   within_relative_tolerance (1 / 1000) (100000 / 7000 - 97888 / 10000)
     (value_of (vec_y (accelerationVector rocket_stepped))) \<and>
   within_relative_tolerance (1 / 1000) (4497 / 1000)
     (value_of (vec_y (accelerationVector rocket_stepped))) \<and>
   within_relative_tolerance (1 / 1000) (2248 / 10000)
     (value_of (vec_y (velocityVector rocket_stepped))) \<and>
   within_relative_tolerance (1 / 1000) (6381000011 / 1000)
     (value_of (body_y rocket_stepped))"
  by (simp add: rocket_stepped_values(1) rocket_stepped_y gravity_at_rocket
      within_relative_tolerance_def)

text \<open>
  C8, counterexample. On the same input the result is finite, its acceleration is not
  within 1e-3 of 100000/7000 - 9.7965 nor of 4.489, and its velocity is not within 1e-3
  of 0.2244, whichever of the two values the tolerance is taken relative to.
\<close>

theorem C8_scenario_counterexample:
  "finite_body rocket_stepped \<and>
   \<not> within_relative_tolerance (1 / 1000) (100000 / 7000 - 97965 / 10000)
       (value_of (vec_y (accelerationVector rocket_stepped))) \<and>
   \<not> within_relative_tolerance (1 / 1000) (4489 / 1000)
       (value_of (vec_y (accelerationVector rocket_stepped))) \<and>
   \<not> within_relative_tolerance (1 / 1000) (2244 / 10000)
       (value_of (vec_y (velocityVector rocket_stepped))) \<and>
   \<not> within_relative_tolerance (1 / 1000)
       (value_of (vec_y (accelerationVector rocket_stepped))) (4489 / 1000) \<and>
   \<not> within_relative_tolerance (1 / 1000)
       (value_of (vec_y (velocityVector rocket_stepped))) (2244 / 10000)"
  by (simp add: rocket_stepped_values(1) rocket_stepped_y within_relative_tolerance_def)

end
